theory Spec2Isabelle
  imports Main
begin

section \<open>Data model of app.py\<close>

text \<open>
  A chat message is the dictionary \<^verbatim>\<open>{"role": ..., "content": ...}\<close> of the
  source; the role is kept as the string the source writes.
\<close>

record message =
  role :: string
  content :: string

text \<open>
  The session state is the \<^verbatim>\<open>defaults\<close> dictionary of the source (lines 66-83),
  one field per key. \<^verbatim>\<open>user_message_count\<close> is a Python integer.
\<close>

record session_state =
  setup_complete :: bool
  user_message_count :: int
  feedback_shown :: bool
  chat_complete :: bool
  messages :: "message list"
  name :: string
  experience :: string
  skills :: string
  level :: string
  position :: string
  company :: string
  openai_model :: string
  stop_requested :: bool
  stopped_early :: bool

definition defaults :: session_state where
  "defaults = \<lparr>setup_complete = False, user_message_count = 0, feedback_shown = False,
     chat_complete = False, messages = [], name = [], experience = [], skills = [],
     level = ''Junior'', position = ''Data Scientist'', company = ''Amazon'',
     openai_model = ''gpt-4.1-mini'', stop_requested = False, stopped_early = False\<rparr>"

subsection \<open>Callbacks (lines 89-104)\<close>

definition complete_setup :: "session_state \<Rightarrow> session_state" where
  "complete_setup s = s\<lparr>setup_complete := True\<rparr>"

definition show_feedback :: "session_state \<Rightarrow> session_state" where
  "show_feedback s = s\<lparr>feedback_shown := True\<rparr>"

definition request_stop :: "session_state \<Rightarrow> session_state" where
  "request_stop s =
     (let s1 = s\<lparr>stop_requested := True\<rparr>;
          s2 = (if user_message_count s1 = 0 then s1\<lparr>stopped_early := True\<rparr> else s1)
      in s2\<lparr>chat_complete := True\<rparr>)"

subsection \<open>What the script receives in one run, and what it shows\<close>

datatype button =
  StartInterview | StopBtn | GetFeedback | RestartEarly | RestartGuard | RestartBtn

text \<open>
  The value \<^verbatim>\<open>streamlit_js_eval\<close> hands back at line 200: the call may raise
  (swallowed at line 224), return something that is not a list, or return a list.
\<close>

datatype esc_signal = EscRaises | EscNotList | EscList "string list"

text \<open>
  One pull from the completion stream: a chunk whose \<^verbatim>\<open>delta.content\<close> is a
  string (\<open>Some\<close>) or is absent or unreadable (\<open>None\<close>, lines 253-256), or an
  exception raised by the iterator. The stream ends when the list is used up.
  Nothing writes \<^verbatim>\<open>stop_requested\<close> while the loop runs: its writers are the
  callback of the Stop button, which Streamlit runs at the start of the next run, and the
  ESC handler of lines 219-223, which comes before the gate of line 228. What a click
  during streaming does is ask for that next run, and Streamlit then stops the running
  script at its next access to the session state or next drawing call, with an exception
  that \<^verbatim>\<open>except Exception\<close> does not catch. So each pull is paired with a flag
  that says whether such a request is pending when the script comes back from the pull:
  after a chunk the script is stopped at line 250, after an exception of the stream at
  line 261. A request that arrives after the last pull is not part of the model.
\<close>

datatype stream_item = Chunk "string option" | StreamError string

datatype create_result = CreateRaises string | CreateStream "(bool \<times> stream_item) list"

datatype score_result = ScoreRaises string | ScoreText string

record form_values =
  f_name :: string
  f_experience :: string
  f_skills :: string
  f_level :: string
  f_position :: string
  f_company :: string

record run_input =
  clicked :: "button option"
  form :: form_values
  esc :: esc_signal
  prompt :: "string option"
  completion :: create_result
  scoring :: score_result

datatype notice = StError string | StInfo string | StWrite string

record download =
  dl_data :: string
  dl_file_name :: string
  dl_mime :: string

record run_output =
  notices :: "notice list"
  buttons :: "button list"
  completion_calls :: "(string \<times> message list) list"
  scoring_calls :: "(string \<times> message list) list"
  downloads :: "download list"
  reloads :: nat
  cut_short :: bool

text \<open>The three error notices (lines 261, 272 and 342), each with the exception's text.\<close>

definition streaming_failed :: "string \<Rightarrow> notice" where
  "streaming_failed e = StError (''Assistant streaming failed: '' @ e)"

definition response_failed :: "string \<Rightarrow> notice" where
  "response_failed e = StError (''Assistant response failed: '' @ e)"

definition feedback_failed :: "string \<Rightarrow> notice" where
  "feedback_failed e = StError (''Feedback generation failed: '' @ e)"

definition no_output :: run_output where
  "no_output = \<lparr>notices = [], buttons = [], completion_calls = [], scoring_calls = [],
     downloads = [], reloads = 0, cut_short = False\<rparr>"

definition notify :: "notice \<Rightarrow> run_output \<Rightarrow> run_output" where
  "notify n out = out\<lparr>notices := notices out @ [n]\<rparr>"

definition show_button :: "button \<Rightarrow> run_output \<Rightarrow> run_output" where
  "show_button b out = out\<lparr>buttons := buttons out @ [b]\<rparr>"

text \<open>
  A restart button (lines 297, 305, 353): shown, and when it is the button that was
  clicked the page is reloaded.
\<close>

definition restart_button :: "button \<Rightarrow> run_input \<Rightarrow> run_output \<Rightarrow> run_output" where
  "restart_button b inp out =
     (let out1 = show_button b out
      in if clicked inp = Some b then out1\<lparr>reloads := Suc (reloads out1)\<rparr> else out1)"

section \<open>Turn budget (lines 228 and 235)\<close>

definition accepts_input :: "int \<Rightarrow> bool" where
  "accepts_input n = (n < 5)"

definition generates_reply :: "int \<Rightarrow> bool" where
  "generates_reply n = (n < 4)"

section \<open>Stop by the ESC key (lines 219-223)\<close>

text \<open>The test of line 219 on the value the listener handed back.\<close>

definition esc_signalled :: "esc_signal \<Rightarrow> bool" where
  "esc_signalled sig =
     (case sig of
        EscList xs \<Rightarrow> length xs = 2 \<and> xs ! 1 = ''STOP_REQUESTED''
      | _ \<Rightarrow> False)"

definition esc_listener :: "esc_signal \<Rightarrow> session_state \<Rightarrow> session_state" where
  "esc_listener sig s =
     (if esc_signalled sig then
        (let s1 = s\<lparr>stop_requested := True\<rparr>;
             s2 = (if user_message_count s1 = 0 then s1\<lparr>stopped_early := True\<rparr> else s1)
         in s2\<lparr>chat_complete := True\<rparr>)
      else s)"

section \<open>The streaming loop (lines 246-261)\<close>

record loop_result =
  full_response :: string
  chunks_pulled :: nat
  broke :: bool
  stream_error :: "string option"

datatype loop_outcome = ScriptCut | LoopDone loop_result

definition append_delta :: "string \<Rightarrow> string option \<Rightarrow> string" where
  "append_delta acc delta = (case delta of None \<Rightarrow> acc | Some d \<Rightarrow> if d \<noteq> [] then acc @ d else acc)"

text \<open>
  \<^verbatim>\<open>for chunk in stream\<close> first pulls the next chunk, then the body reads
  \<^verbatim>\<open>stop_requested\<close> and breaks, or appends the chunk's text. \<open>chunks_pulled\<close>
  counts the chunks the iterator handed over. When a rerun is pending the script does not
  get past the pull: the loop has no result, and the text accumulated in the local
  variable is lost.
\<close>

fun stream_loop :: "(bool \<times> stream_item) list \<Rightarrow> session_state \<Rightarrow> string \<Rightarrow> nat \<Rightarrow> loop_outcome" where
  "stream_loop [] s acc n =
     LoopDone \<lparr>full_response = acc, chunks_pulled = n, broke = False, stream_error = None\<rparr>"
| "stream_loop ((rerun_pending, item) # rest) s acc n =
     (if rerun_pending then ScriptCut
      else case item of
           StreamError e \<Rightarrow>
             LoopDone \<lparr>full_response = acc, chunks_pulled = n, broke = False,
                       stream_error = Some e\<rparr>
         | Chunk delta \<Rightarrow>
             if stop_requested s then
               LoopDone \<lparr>full_response = acc, chunks_pulled = Suc n, broke = True,
                         stream_error = None\<rparr>
             else stream_loop rest s (append_delta acc delta) (Suc n))"

section \<open>The script, top to bottom\<close>

definition apply_callback :: "button option \<Rightarrow> session_state \<Rightarrow> session_state" where
  "apply_callback b s =
     (case b of
        Some StartInterview \<Rightarrow> complete_setup s
      | Some StopBtn \<Rightarrow> request_stop s
      | Some GetFeedback \<Rightarrow> show_feedback s
      | _ \<Rightarrow> s)"

definition setup_stage :: "run_input \<Rightarrow> session_state \<Rightarrow> run_output \<Rightarrow> session_state \<times> run_output" where
  "setup_stage inp s out =
     (if \<not> setup_complete s then
        (s\<lparr>name := f_name (form inp), experience := f_experience (form inp),
           skills := f_skills (form inp), level := f_level (form inp),
           position := f_position (form inp), company := f_company (form inp)\<rparr>,
         show_button StartInterview out)
      else (s, out))"

definition system_message :: "session_state \<Rightarrow> message" where
  "system_message s =
     \<lparr>role = ''system'',
      content = ''You are an HR executive that interviews an interviewee called '' @ name s
        @ '' with experience '' @ experience s @ '' and skills '' @ skills s
        @ ''. You should interview him for the position '' @ level s @ '' '' @ position s
        @ '' at the company '' @ company s\<rparr>"

text \<open>
  The assistant's reply to an accepted message (lines 236-272): the call that creates
  the stream may raise (outer handler, line 271); once the stream exists and the script
  gets to the end of the loop, the loop's text is appended. A script stopped in the loop
  keeps the session state it had there and is marked \<open>cut_short\<close>.
\<close>

definition reply_done :: "loop_result \<Rightarrow> session_state \<Rightarrow> run_output \<Rightarrow> session_state \<times> run_output" where
  "reply_done r s out =
     (let out1 = (case stream_error r of
                    Some e \<Rightarrow> notify (streaming_failed e) out
                  | None \<Rightarrow> out);
          s2 = (if stop_requested s then s\<lparr>chat_complete := True\<rparr> else s);
          out2 = (if stop_requested s then notify (StInfo ''Interview stopped by user.'') out1
                  else out1)
      in (s2\<lparr>messages := messages s2 @ [\<lparr>role = ''assistant'', content = full_response r\<rparr>]\<rparr>,
          out2))"

definition streamed_reply :: "(bool \<times> stream_item) list \<Rightarrow> session_state \<Rightarrow> run_output \<Rightarrow> session_state \<times> run_output" where
  "streamed_reply items s out =
     (case stream_loop items s [] 0 of
        ScriptCut \<Rightarrow> (s, out\<lparr>cut_short := True\<rparr>)
      | LoopDone r \<Rightarrow> reply_done r s out)"

definition assistant_reply :: "create_result \<Rightarrow> session_state \<Rightarrow> run_output \<Rightarrow> session_state \<times> run_output" where
  "assistant_reply cr s out =
     (let out1 = out\<lparr>completion_calls := completion_calls out @ [(openai_model s, messages s)]\<rparr>
      in (case cr of
            CreateRaises e \<Rightarrow> (s, notify (response_failed e) out1)
          | CreateStream items \<Rightarrow> streamed_reply items s out1))"

text \<open>
  One accepted user message (lines 230-275). When the script is stopped during the reply,
  the increment of line 275 is not reached.
\<close>

definition user_turn :: "string \<Rightarrow> create_result \<Rightarrow> session_state \<Rightarrow> run_output \<Rightarrow> session_state \<times> run_output" where
  "user_turn p cr s out =
     (let s1 = s\<lparr>messages := messages s @ [\<lparr>role = ''user'', content = p\<rparr>]\<rparr>
      in if generates_reply (user_message_count s1) then
           (let w = assistant_reply cr s1 out
            in if cut_short (snd w) then w
               else ((fst w)\<lparr>user_message_count := user_message_count (fst w) + 1\<rparr>, snd w))
         else (s1\<lparr>user_message_count := user_message_count s1 + 1\<rparr>, out))"

text \<open>
  The interview section (lines 163-279): the system message is created once (lines
  167-178), the stop button and the ESC listener come next, then the input gate of line
  228 and the end test of line 278. \<^verbatim>\<open>if prompt := st.chat_input(...)\<close> holds
  for a submitted, non-empty string. Calls that only draw on the page are left out.
\<close>

definition chat_input :: "run_input \<Rightarrow> session_state \<Rightarrow> run_output \<Rightarrow> session_state \<times> run_output" where
  "chat_input inp s out =
     (case prompt inp of
        None \<Rightarrow> (s, out)
      | Some p \<Rightarrow> if p \<noteq> [] then user_turn p (completion inp) s out else (s, out))"

definition init_messages :: "session_state \<Rightarrow> session_state" where
  "init_messages s = (if messages s = [] then s\<lparr>messages := [system_message s]\<rparr> else s)"

definition input_loop :: "run_input \<Rightarrow> session_state \<Rightarrow> run_output \<Rightarrow> session_state \<times> run_output" where
  "input_loop inp s out =
     (if accepts_input (user_message_count s) \<and> \<not> stop_requested s
      then chat_input inp s out
      else (s, out))"

definition end_interview :: "session_state \<Rightarrow> session_state" where
  "end_interview s =
     (if user_message_count s \<ge> 5 \<or> stop_requested s then s\<lparr>chat_complete := True\<rparr> else s)"

definition interview_phase :: "run_input \<Rightarrow> session_state \<Rightarrow> run_output \<Rightarrow> session_state \<times> run_output" where
  "interview_phase inp s out =
     (if setup_complete s \<and> \<not> feedback_shown s \<and> \<not> chat_complete s then
        (let out1 = notify (StInfo ''Start by introducing yourself'') out;
             s1 = init_messages s;
             out2 = show_button StopBtn out1;
             s2 = esc_listener (esc inp) s1;
             w = input_loop inp s2 out2
         in (if cut_short (snd w) then fst w else end_interview (fst w), snd w))
      else (s, out))"

definition get_feedback_gate :: "session_state \<Rightarrow> bool" where
  "get_feedback_gate s =
     (chat_complete s \<and> \<not> feedback_shown s \<and> \<not> stopped_early s \<and> user_message_count s > 0)"

definition get_feedback_section :: "session_state \<Rightarrow> run_output \<Rightarrow> run_output" where
  "get_feedback_section s out = (if get_feedback_gate s then show_button GetFeedback out else out)"

definition stopped_early_section :: "run_input \<Rightarrow> session_state \<Rightarrow> run_output \<Rightarrow> run_output" where
  "stopped_early_section inp s out =
     (if chat_complete s \<and> \<not> feedback_shown s \<and> stopped_early s then
        restart_button RestartEarly inp (notify (StInfo ''Interview was stopped before it began.'') out)
      else out)"

definition render_line :: "message \<Rightarrow> string" where
  "render_line m = role m @ '': '' @ content m"

fun join_nl :: "string list \<Rightarrow> string" where
  "join_nl [] = []"
| "join_nl [x] = x"
| "join_nl (x # y # ys) = x @ [CHR 0x0A] @ join_nl (y # ys)"

definition conversation_history :: "session_state \<Rightarrow> string" where
  "conversation_history s = join_nl (map render_line (messages s))"

definition transcript :: "session_state \<Rightarrow> string" where
  "transcript s = join_nl (map (\<lambda>m. role m @ '': '' @ content m) (messages s))"

definition feedback_system_prompt :: string where
  "feedback_system_prompt =
     ''You are a helpful tool that provides feedback on an interviewee performance. ''
     @ ''Before the Feedback give a score of 1 to 10.'' @ [CHR 0x0A]
     @ ''Follow this format:'' @ [CHR 0x0A]
     @ ''Overal Score: //Your score'' @ [CHR 0x0A]
     @ ''Feedback: //Here you put your feedback'' @ [CHR 0x0A]
     @ ''Give only the feedback do not ask any additional questins.''"

definition feedback_user_prefix :: string where
  "feedback_user_prefix =
     ''This is the interview you need to evaluate. ''
     @ ''Keep in mind that you are only a tool. ''
     @ ''And you shouldn't engage in any converstation: ''"

definition feedback_request :: "session_state \<Rightarrow> string \<times> message list" where
  "feedback_request s =
     (''gpt-4o'',
      [\<lparr>role = ''system'', content = feedback_system_prompt\<rparr>,
       \<lparr>role = ''user'', content = feedback_user_prefix @ conversation_history s\<rparr>])"

text \<open>
  The feedback screen (lines 301-354). The guard of line 302 ends the script with
  \<^verbatim>\<open>st.stop()\<close> before the scoring call.
\<close>

definition feedback_screen :: "run_input \<Rightarrow> session_state \<Rightarrow> run_output \<Rightarrow> run_output" where
  "feedback_screen inp s out =
     (if feedback_shown s then
        (if stopped_early s \<or> user_message_count s = 0 then
           restart_button RestartGuard inp
             (notify (StInfo ''Interview was stopped before it began. No feedback available.'') out)
         else
           (let out1 = out\<lparr>scoring_calls := scoring_calls out @ [feedback_request s]\<rparr>;
                out2 = (case scoring inp of
                          ScoreText t \<Rightarrow> notify (StWrite t) out1
                        | ScoreRaises e \<Rightarrow> notify (feedback_failed e) out1);
                out3 = out2\<lparr>downloads := downloads out2 @
                         [\<lparr>dl_data = transcript s, dl_file_name = ''interview_transcript.txt'',
                           dl_mime = ''text/plain''\<rparr>]\<rparr>
            in restart_button RestartBtn inp out3))
      else out)"

text \<open>
  One run of the script: the \<^verbatim>\<open>on_click\<close> callback of the clicked button runs
  first, then the script body. The input may name any button, also one the previous run
  did not show, so what is proved for all inputs holds for every sequence of clicks. The
  API key is taken to be present (without it the script stops at line 52 before any of
  this), and the calls that draw on the page are taken not to raise. A script that was
  stopped during a reply does not reach the sections after it.
\<close>

definition run :: "run_input \<Rightarrow> session_state \<Rightarrow> session_state \<times> run_output" where
  "run inp s0 =
     (let s1 = apply_callback (clicked inp) s0;
          w2 = setup_stage inp s1 no_output;
          w3 = interview_phase inp (fst w2) (snd w2);
          s3 = fst w3
      in (s3, if cut_short (snd w3) then snd w3
              else feedback_screen inp s3
                     (stopped_early_section inp s3 (get_feedback_section s3 (snd w3)))))"

fun runs :: "run_input list \<Rightarrow> session_state \<Rightarrow> session_state" where
  "runs [] s = s"
| "runs (inp # inps) s = runs inps (fst (run inp s))"

inductive reachable :: "session_state \<Rightarrow> bool" where
  reachable_defaults: "reachable defaults"
| reachable_run: "reachable s \<Longrightarrow> reachable (fst (run inp s))"

subsection \<open>Phases, read off the conditions that guard the script's sections\<close>

datatype phase = Setup | Interviewing | StoppedEarly | Completed | FeedbackShown | NoSection

definition phase_of :: "session_state \<Rightarrow> phase" where
  "phase_of s =
     (if \<not> setup_complete s then Setup
      else if feedback_shown s then FeedbackShown
      else if \<not> chat_complete s then Interviewing
      else if stopped_early s then StoppedEarly
      else if user_message_count s > 0 then Completed
      else NoSection)"

section \<open>Notions used to state the properties\<close>

text \<open>
  \<open>advances s s'\<close>: the flags that were set in \<open>s\<close> are set in \<open>s'\<close>, the turn
  count has not gone down, and an early stop has not appeared after the first turn.
\<close>

definition advances :: "session_state \<Rightarrow> session_state \<Rightarrow> bool" where
  "advances s s' =
     ((setup_complete s \<longrightarrow> setup_complete s') \<and>
      (feedback_shown s \<longrightarrow> feedback_shown s') \<and>
      (chat_complete s \<longrightarrow> chat_complete s') \<and>
      (stop_requested s \<longrightarrow> stop_requested s') \<and>
      (stopped_early s \<longrightarrow> stopped_early s') \<and>
      user_message_count s \<le> user_message_count s' \<and>
      (0 < user_message_count s \<and> \<not> stopped_early s \<longrightarrow> \<not> stopped_early s'))"

text \<open>
  The text a pull contributes to the reply, and a pull that hands over a chunk while no
  rerun is pending.
\<close>

definition delta_text :: "bool \<times> stream_item \<Rightarrow> string" where
  "delta_text x = (case snd x of Chunk (Some d) \<Rightarrow> d | _ \<Rightarrow> [])"

definition quiet_chunk :: "bool \<times> stream_item \<Rightarrow> bool" where
  "quiet_chunk x = (\<not> fst x \<and> (case snd x of Chunk d \<Rightarrow> True | StreamError e \<Rightarrow> False))"

text \<open>
  Concrete inputs: a run in which nothing is clicked, typed or signalled, and a run in
  which the user submits a message and the completion service streams \<open>Hi\<close>.
\<close>

definition idle_input :: run_input where
  "idle_input =
     \<lparr>clicked = None,
      form = \<lparr>f_name = ''Ann'', f_experience = ''two years'', f_skills = ''SQL'',
              f_level = ''Junior'', f_position = ''Data Scientist'', f_company = ''Amazon''\<rparr>,
      esc = EscList [''OK'', []], prompt = None,
      completion = CreateStream [(False, Chunk (Some ''Hi''))],
      scoring = ScoreText ''Overal Score: 7''\<rparr>"

definition say :: "string \<Rightarrow> run_input" where
  "say p = idle_input\<lparr>prompt := Some p\<rparr>"

definition click :: "button \<Rightarrow> run_input" where
  "click b = idle_input\<lparr>clicked := Some b\<rparr>"

text \<open>A session about to receive its fifth message.\<close>

definition fifth_turn_state :: session_state where
  "fifth_turn_state = defaults\<lparr>setup_complete := True, user_message_count := 4,
     messages := [\<lparr>role = ''system'', content = ''brief''\<rparr>]\<rparr>"

text \<open>
  The three fragments \<open>Hel\<close>, \<open>lo \<close>, \<open>world\<close>; with the argument true, Stop is
  clicked after the first fragment has been appended.
\<close>

definition hello_stream :: "bool \<Rightarrow> (bool \<times> stream_item) list" where
  "hello_stream stop_after_first =
     [(False, Chunk (Some ''Hel'')), (stop_after_first, Chunk (Some ''lo '')),
      (False, Chunk (Some ''world''))]"

text \<open>
  The two stop trigger sources: the Stop button, whose callback is
  \<^verbatim>\<open>request_stop\<close>, and the ESC key, whose signal the listener of line 219 accepts.
\<close>

datatype stop_source = StopButton | EscKey

definition fire :: "stop_source \<Rightarrow> session_state \<Rightarrow> session_state" where
  "fire src s =
     (case src of
        StopButton \<Rightarrow> request_stop s
      | EscKey \<Rightarrow> esc_listener (EscList [''OK'', ''STOP_REQUESTED'']) s)"

fun fire_all :: "stop_source list \<Rightarrow> session_state \<Rightarrow> session_state" where
  "fire_all [] s = s"
| "fire_all (src # srcs) s = fire_all srcs (fire src s)"

text \<open>A session that has had two turns.\<close>

definition second_turn_state :: session_state where
  "second_turn_state = defaults\<lparr>setup_complete := True, user_message_count := 2,
     messages := [\<lparr>role = ''system'', content = ''brief''\<rparr>,
                  \<lparr>role = ''user'', content = ''hello''\<rparr>,
                  \<lparr>role = ''assistant'', content = ''Hi''\<rparr>,
                  \<lparr>role = ''user'', content = ''I am Ann''\<rparr>,
                  \<lparr>role = ''assistant'', content = ''Welcome''\<rparr>]\<rparr>"

text \<open>The two kinds of message a turn appends (lines 230 and 269).\<close>

definition user_message :: "string \<Rightarrow> message" where
  "user_message p = \<lparr>role = ''user'', content = p\<rparr>"

definition assistant_message :: "string \<Rightarrow> message" where
  "assistant_message t = \<lparr>role = ''assistant'', content = t\<rparr>"

text \<open>
  A run in which a message is accepted: the interview section is open, the gate of line
  228 holds, nothing was clicked, the ESC key was not pressed, and a non-empty message
  was submitted.
\<close>

definition accepted_turn :: "run_input \<Rightarrow> session_state \<Rightarrow> bool" where
  "accepted_turn inp s =
     (setup_complete s \<and> \<not> feedback_shown s \<and> \<not> chat_complete s \<and>
      accepts_input (user_message_count s) \<and> \<not> stop_requested s \<and>
      clicked inp = None \<and> \<not> esc_signalled (esc inp) \<and>
      (case prompt inp of None \<Rightarrow> False | Some p \<Rightarrow> p \<noteq> []))"

text \<open>What the interview section has drawn when it reaches the input.\<close>

definition first_screen :: run_output where
  "first_screen = show_button StopBtn (notify (StInfo ''Start by introducing yourself'') no_output)"

text \<open>
  Three submitted messages: the completion call raises; Stop is clicked after the first
  fragment; the stream raises after the first fragment.
\<close>

definition timeout_input :: run_input where
  "timeout_input = (say ''I am Ann'')\<lparr>completion := CreateRaises ''timeout''\<rparr>"

definition aborted_input :: run_input where
  "aborted_input = (say ''I am Ann'')\<lparr>completion := CreateStream (hello_stream True)\<rparr>"

definition failing_input :: run_input where
  "failing_input = (say ''I am Ann'')\<lparr>completion :=
     CreateStream [(False, Chunk (Some ''Hel'')), (False, StreamError ''reset'')]\<rparr>"




text \<open>Two outputs that differ at most in their notices and completion calls.\<close>

definition same_widgets :: "run_output \<Rightarrow> run_output \<Rightarrow> bool" where
  "same_widgets out out' =
     (buttons out' = buttons out \<and> scoring_calls out' = scoring_calls out \<and>
      downloads out' = downloads out \<and> reloads out' = reloads out)"


definition interview_start :: session_state where
  "interview_start = defaults\<lparr>setup_complete := True\<rparr>"

text \<open>
  A session stopped after two turns, and a click on Get Feedback that the scoring service
  answers with an exception.
\<close>

definition completed_state :: session_state where
  "completed_state = request_stop second_turn_state"

definition failing_feedback_click :: run_input where
  "failing_feedback_click = (click GetFeedback)\<lparr>scoring := ScoreRaises ''boom''\<rparr>"

text \<open>
  A transcript that is empty, or starts with the system message and goes on with user
  and assistant messages only.
\<close>

definition system_first :: "message list \<Rightarrow> bool" where
  "system_first ms =
     (case ms of
        [] \<Rightarrow> True
      | m # rest \<Rightarrow> role m = ''system'' \<and>
          list_all (\<lambda>x. role x = ''user'' \<or> role x = ''assistant'') rest)"

text \<open>The session after the form was shown and Start Interview was clicked.\<close>

definition started_state :: session_state where
  "started_state = runs [idle_input, click StartInterview] defaults"

section \<open>Basic facts\<close>

lemma request_stop_fields [simp]:
  "stop_requested (request_stop s)"
  "chat_complete (request_stop s)"
  "stopped_early (request_stop s) = (stopped_early s \<or> user_message_count s = 0)"
  "user_message_count (request_stop s) = user_message_count s"
  "messages (request_stop s) = messages s"
  "feedback_shown (request_stop s) = feedback_shown s"
  "setup_complete (request_stop s) = setup_complete s"
  by (simp_all add: request_stop_def Let_def)

lemma request_stop_twice: "request_stop (request_stop s) = request_stop s"
  by (simp add: request_stop_def Let_def)

lemma esc_listener_eq: "esc_listener sig s = (if esc_signalled sig then request_stop s else s)"
  by (simp add: esc_listener_def request_stop_def Let_def)

lemma advances_refl: "advances s s"
  by (simp add: advances_def)

lemma advances_trans: "advances a b \<Longrightarrow> advances b c \<Longrightarrow> advances a c"
  unfolding advances_def by force

lemma advances_request_stop: "advances s (request_stop s)"
  by (auto simp add: advances_def)

lemma advances_esc_listener: "advances s (esc_listener sig s)"
  by (simp add: esc_listener_eq advances_request_stop advances_refl)

lemma append_delta_text: "append_delta acc d = acc @ delta_text (f, Chunk d)"
  by (simp add: append_delta_def delta_text_def split: option.splits)

lemma stream_loop_quiet_prefix:
  "list_all quiet_chunk pre \<Longrightarrow> \<not> stop_requested s \<Longrightarrow>
   stream_loop (pre @ rest) s acc n =
     stream_loop rest s (acc @ concat (map delta_text pre)) (n + length pre)"
proof (induction pre arbitrary: acc n)
  case Nil
  show ?case by simp
next
  case (Cons x pre)
  obtain pending item where x: "x = (pending, item)" by (cases x)
  from Cons.prems x obtain d where d: "\<not> pending" "item = Chunk d"
    by (auto simp add: quiet_chunk_def split: stream_item.splits)
  from Cons.prems have "list_all quiet_chunk pre" by simp
  from Cons.IH [OF this Cons.prems(2), of "append_delta acc d" "Suc n"] x d Cons.prems(2)
  show ?case by (simp add: append_delta_text [of acc d False])
qed


lemma esc_listener_keeps:
  "user_message_count (esc_listener sig s) = user_message_count s"
  "messages (esc_listener sig s) = messages s"
  by (simp_all add: esc_listener_eq)

section \<open>Turn budget\<close>

text \<open>
  C2. Input is within budget exactly for counts below 5 (true for 0..4, false from 5 on)
  and a reply is generated exactly for counts below 4 (true for 0..3, false from 4 on);
  both depend on the count alone. The message sent at count 4 is stored and counted, and
  no completion call is made for it; once the budget is used up the interview section
  stores nothing more.
\<close>

theorem turn_budget_policy:
  "(0 \<le> n \<and> n \<le> 4 \<longrightarrow> accepts_input n) \<and>
   (5 \<le> n \<longrightarrow> \<not> accepts_input n) \<and>
   (0 \<le> n \<and> n \<le> 3 \<longrightarrow> generates_reply n) \<and>
   (4 \<le> n \<longrightarrow> \<not> generates_reply n) \<and>
   (user_message_count s = 4 \<longrightarrow>
      accepts_input (user_message_count s) \<and>
      user_turn p cr s out =
        (s\<lparr>messages := messages s @ [\<lparr>role = ''user'', content = p\<rparr>],
           user_message_count := 5\<rparr>, out)) \<and>
   (\<not> accepts_input (user_message_count s) \<longrightarrow>
      user_message_count (fst (interview_phase inp s out)) = user_message_count s \<and>
      completion_calls (snd (interview_phase inp s out)) = completion_calls out \<and>
      messages (fst (interview_phase inp s out)) =
        (if setup_complete s \<and> \<not> feedback_shown s \<and> \<not> chat_complete s \<and> messages s = []
         then [system_message s] else messages s))"
proof -
  have budget: "(0 \<le> n \<and> n \<le> 4 \<longrightarrow> accepts_input n) \<and> (5 \<le> n \<longrightarrow> \<not> accepts_input n) \<and>
      (0 \<le> n \<and> n \<le> 3 \<longrightarrow> generates_reply n) \<and> (4 \<le> n \<longrightarrow> \<not> generates_reply n)"
    by (simp add: accepts_input_def generates_reply_def)
  have fifth: "user_message_count s = 4 \<longrightarrow>
      accepts_input (user_message_count s) \<and>
      user_turn p cr s out =
        (s\<lparr>messages := messages s @ [\<lparr>role = ''user'', content = p\<rparr>],
           user_message_count := 5\<rparr>, out)"
    by (simp add: accepts_input_def generates_reply_def user_turn_def Let_def)
  have closed: "\<not> accepts_input (user_message_count s) \<longrightarrow>
      user_message_count (fst (interview_phase inp s out)) = user_message_count s \<and>
      completion_calls (snd (interview_phase inp s out)) = completion_calls out \<and>
      messages (fst (interview_phase inp s out)) =
        (if setup_complete s \<and> \<not> feedback_shown s \<and> \<not> chat_complete s \<and> messages s = []
         then [system_message s] else messages s)"
    by (simp add: interview_phase_def init_messages_def input_loop_def end_interview_def
        Let_def esc_listener_keeps notify_def show_button_def)
  from budget fifth closed show ?thesis by blast
qed

theorem turn_budget_policy_witness:
  "accepts_input 0 \<and> accepts_input 4 \<and> \<not> accepts_input 5 \<and>
   generates_reply 0 \<and> generates_reply 3 \<and> \<not> generates_reply 4 \<and>
   user_turn ''bye'' (CreateStream [(False, Chunk (Some ''never asked''))]) fifth_turn_state no_output =
     (fifth_turn_state\<lparr>messages := [\<lparr>role = ''system'', content = ''brief''\<rparr>,
                                      \<lparr>role = ''user'', content = ''bye''\<rparr>],
        user_message_count := 5\<rparr>, no_output) \<and>
   messages (fst (interview_phase (say ''more'') (fifth_turn_state\<lparr>user_message_count := 5\<rparr>) no_output))
     = [\<lparr>role = ''system'', content = ''brief''\<rparr>]"
  using turn_budget_policy [of 0 fifth_turn_state "''bye''" "CreateStream [(False, Chunk (Some ''never asked''))]" no_output]
    turn_budget_policy [of 4 "fifth_turn_state\<lparr>user_message_count := 5\<rparr>" "''bye''" "CreateStream []" no_output "say ''more''"]
    turn_budget_policy [of 3] turn_budget_policy [of 5]
  by (simp add: fifth_turn_state_def defaults_def)

section \<open>The two stop triggers\<close>

text \<open>
  C9. The ESC path changes the session state exactly as \<^verbatim>\<open>request_stop\<close> does:
  \<open>stop_requested\<close> becomes true, \<open>stopped_early\<close> becomes true when the count is 0
  and is otherwise left alone, and \<open>chat_complete\<close> becomes true.
\<close>

theorem esc_stop_same_as_request_stop:
  "esc_listener (EscList [ok, ''STOP_REQUESTED'']) s = request_stop s \<and>
   (esc_signalled sig \<longrightarrow> esc_listener sig s = request_stop s) \<and>
   request_stop s =
     s\<lparr>stop_requested := True,
       stopped_early := (stopped_early s \<or> user_message_count s = 0),
       chat_complete := True\<rparr>"
  by (simp add: esc_listener_def esc_signalled_def request_stop_def Let_def)

theorem esc_stop_same_as_request_stop_witness:
  "esc_signalled (EscList [''OK'', ''STOP_REQUESTED'']) \<and>
   esc_listener (EscList [''OK'', ''STOP_REQUESTED'']) defaults = request_stop defaults \<and>
   stopped_early (esc_listener (EscList [''OK'', ''STOP_REQUESTED'']) defaults) \<and>
   \<not> stopped_early (esc_listener (EscList [''OK'', ''STOP_REQUESTED'']) (defaults\<lparr>user_message_count := 2\<rparr>))"
  using esc_stop_same_as_request_stop [of "''OK''" defaults "EscList [''OK'', ''STOP_REQUESTED'']"]
    esc_stop_same_as_request_stop [of "''OK''" "defaults\<lparr>user_message_count := 2\<rparr>" "EscList [''OK'', ''STOP_REQUESTED'']"]
  by (simp add: esc_signalled_def defaults_def)

section \<open>The streaming loop\<close>

lemma stream_loop_cut_at:
  assumes "list_all quiet_chunk pre" and "\<not> stop_requested s"
  shows "stream_loop (pre @ (True, item) # rest) s acc n = ScriptCut"
  using stream_loop_quiet_prefix [OF assms] by simp

lemma stream_loop_failed_at:
  assumes "list_all quiet_chunk pre" and "\<not> stop_requested s"
  shows "stream_loop (pre @ (False, StreamError e) # rest) s acc n =
     LoopDone \<lparr>full_response = acc @ concat (map delta_text pre),
               chunks_pulled = n + length pre, broke = False, stream_error = Some e\<rparr>"
  using stream_loop_quiet_prefix [OF assms] by simp

lemma stream_loop_all_quiet:
  assumes "list_all quiet_chunk items" and "\<not> stop_requested s"
  shows "stream_loop items s acc n =
     LoopDone \<lparr>full_response = acc @ concat (map delta_text items),
               chunks_pulled = n + length items, broke = False, stream_error = None\<rparr>"
  using stream_loop_quiet_prefix [OF assms, of "[]" acc n] by simp

section \<open>How a run moves the session state\<close>

lemma advances_updates:
  "advances s (s\<lparr>messages := m\<rparr>)"
  "advances s (s\<lparr>chat_complete := True\<rparr>)"
  "advances s (s\<lparr>setup_complete := True\<rparr>)"
  "advances s (s\<lparr>feedback_shown := True\<rparr>)"
  "advances s (s\<lparr>user_message_count := user_message_count s + 1\<rparr>)"
  by (simp_all add: advances_def)

lemma reply_done_state:
  "fst (reply_done r s out) =
     (if stop_requested s then s\<lparr>chat_complete := True\<rparr> else s)
       \<lparr>messages := messages s @ [\<lparr>role = ''assistant'', content = full_response r\<rparr>]\<rparr>"
  by (simp add: reply_done_def Let_def)

lemma reply_done_not_cut: "cut_short (snd (reply_done r s out)) = cut_short out"
  by (simp add: reply_done_def Let_def notify_def split: option.splits)

lemma streamed_reply_cases:
  "stream_loop items s [] 0 = ScriptCut \<Longrightarrow>
     streamed_reply items s out = (s, out\<lparr>cut_short := True\<rparr>)"
  "stream_loop items s [] 0 = LoopDone r \<Longrightarrow> streamed_reply items s out = reply_done r s out"
  by (simp_all add: streamed_reply_def)

lemma streamed_reply_count:
  "user_message_count (fst (streamed_reply items s out)) = user_message_count s"
  by (cases "stream_loop items s [] 0") (simp_all add: streamed_reply_cases reply_done_state)

lemma advances_streamed_reply: "advances s (fst (streamed_reply items s out))"
proof (cases "stream_loop items s [] 0")
  case ScriptCut
  then show ?thesis by (simp add: streamed_reply_cases advances_refl)
next
  case (LoopDone r)
  let ?s2 = "if stop_requested s then s\<lparr>chat_complete := True\<rparr> else s"
  have a: "advances s ?s2" by (simp add: advances_updates advances_refl)
  have b: "advances ?s2 (fst (reply_done r s out))"
    unfolding reply_done_state by (rule advances_updates)
  from a b have "advances s (fst (reply_done r s out))" by (rule advances_trans)
  with LoopDone show ?thesis by (simp add: streamed_reply_cases)
qed

lemma assistant_reply_count:
  "user_message_count (fst (assistant_reply cr s out)) = user_message_count s"
  by (cases cr) (simp_all add: assistant_reply_def Let_def streamed_reply_count)

lemma advances_assistant_reply: "advances s (fst (assistant_reply cr s out))"
  by (cases cr) (simp_all add: assistant_reply_def Let_def advances_streamed_reply advances_refl)

lemma user_turn_count:
  "user_message_count (fst (user_turn p cr s out)) =
     (if generates_reply (user_message_count s) \<and> cut_short (snd (user_turn p cr s out))
      then user_message_count s else user_message_count s + 1)"
  by (simp add: user_turn_def Let_def assistant_reply_count)

lemma advances_user_turn: "advances s (fst (user_turn p cr s out))"
proof -
  let ?s1 = "s\<lparr>messages := messages s @ [\<lparr>role = ''user'', content = p\<rparr>]\<rparr>"
  let ?s2 = "fst (assistant_reply cr ?s1 out)"
  have a: "advances s ?s1" by (rule advances_updates)
  have b: "advances ?s1 ?s2" by (rule advances_assistant_reply)
  from a b have ab: "advances s ?s2" by (rule advances_trans)
  have c: "advances ?s2 (?s2\<lparr>user_message_count := user_message_count ?s2 + 1\<rparr>)"
    by (rule advances_updates)
  from ab c have abc: "advances s (?s2\<lparr>user_message_count := user_message_count ?s2 + 1\<rparr>)"
    by (rule advances_trans)
  have d: "advances ?s1 (?s1\<lparr>user_message_count := user_message_count ?s1 + 1\<rparr>)"
    by (rule advances_updates)
  from a d have ad: "advances s (?s1\<lparr>user_message_count := user_message_count ?s1 + 1\<rparr>)"
    by (rule advances_trans)
  have "fst (user_turn p cr s out) = ?s2 \<or>
        fst (user_turn p cr s out) = ?s2\<lparr>user_message_count := user_message_count ?s2 + 1\<rparr> \<or>
        fst (user_turn p cr s out) = ?s1\<lparr>user_message_count := user_message_count ?s1 + 1\<rparr>"
    by (simp add: user_turn_def Let_def)
  with ab abc ad show ?thesis by auto
qed

lemma advances_chat_input: "advances s (fst (chat_input inp s out))"
  by (simp add: chat_input_def advances_user_turn advances_refl split: option.splits)

lemma advances_init_messages: "advances s (init_messages s)"
  by (simp add: init_messages_def advances_updates advances_refl)

lemma advances_input_loop: "advances s (fst (input_loop inp s out))"
  by (simp add: input_loop_def advances_chat_input advances_refl)

lemma advances_end_interview: "advances s (end_interview s)"
  by (simp add: end_interview_def advances_updates advances_refl)

lemma interview_phase_state:
  "fst (interview_phase inp s out) =
     (if setup_complete s \<and> \<not> feedback_shown s \<and> \<not> chat_complete s then
        (if cut_short (snd (input_loop inp (esc_listener (esc inp) (init_messages s))
              (show_button StopBtn (notify (StInfo ''Start by introducing yourself'') out))))
         then fst (input_loop inp (esc_listener (esc inp) (init_messages s))
              (show_button StopBtn (notify (StInfo ''Start by introducing yourself'') out)))
         else end_interview (fst (input_loop inp (esc_listener (esc inp) (init_messages s))
              (show_button StopBtn (notify (StInfo ''Start by introducing yourself'') out)))))
      else s)"
  by (simp add: interview_phase_def Let_def)

lemma advances_interview_phase: "advances s (fst (interview_phase inp s out))"
proof (cases "setup_complete s \<and> \<not> feedback_shown s \<and> \<not> chat_complete s")
  case False
  then show ?thesis by (auto simp add: interview_phase_state advances_refl)
next
  case True
  let ?s1 = "init_messages s"
  let ?s2 = "esc_listener (esc inp) ?s1"
  let ?out2 = "show_button StopBtn (notify (StInfo ''Start by introducing yourself'') out)"
  let ?s3 = "fst (input_loop inp ?s2 ?out2)"
  have a: "advances s ?s1" by (rule advances_init_messages)
  have b: "advances ?s1 ?s2" by (rule advances_esc_listener)
  have c: "advances ?s2 ?s3" by (rule advances_input_loop)
  have d: "advances ?s3 (end_interview ?s3)" by (rule advances_end_interview)
  from a b have "advances s ?s2" by (rule advances_trans)
  from this c have s3: "advances s ?s3" by (rule advances_trans)
  from this d have "advances s (end_interview ?s3)" by (rule advances_trans)
  with s3 True show ?thesis by (simp add: interview_phase_state)
qed

lemma advances_apply_callback: "advances s (apply_callback b s)"
  by (simp add: apply_callback_def complete_setup_def show_feedback_def advances_updates
      advances_request_stop advances_refl split: option.splits button.splits)

lemma advances_setup_stage: "advances s (fst (setup_stage inp s out))"
  by (simp add: setup_stage_def advances_def)

lemma run_state:
  "fst (run inp s) =
     fst (interview_phase inp (fst (setup_stage inp (apply_callback (clicked inp) s) no_output))
            (snd (setup_stage inp (apply_callback (clicked inp) s) no_output)))"
  by (simp add: run_def Let_def)

lemma advances_run: "advances s (fst (run inp s))"
proof -
  let ?s1 = "apply_callback (clicked inp) s"
  let ?w2 = "setup_stage inp ?s1 no_output"
  have "advances s ?s1" by (rule advances_apply_callback)
  moreover have "advances ?s1 (fst ?w2)" by (rule advances_setup_stage)
  ultimately have "advances s (fst ?w2)" by (rule advances_trans)
  moreover have "advances (fst ?w2) (fst (interview_phase inp (fst ?w2) (snd ?w2)))"
    by (rule advances_interview_phase)
  ultimately have "advances s (fst (interview_phase inp (fst ?w2) (snd ?w2)))"
    by (rule advances_trans)
  then show ?thesis by (simp only: run_state)
qed

lemma advances_runs: "advances s (runs inps s)"
proof (induction inps arbitrary: s)
  case Nil
  show ?case by (simp add: advances_refl)
next
  case (Cons inp inps)
  have "advances s (fst (run inp s))" by (rule advances_run)
  moreover have "advances (fst (run inp s)) (runs inps (fst (run inp s)))" by (rule Cons.IH)
  ultimately show ?case unfolding runs.simps by (rule advances_trans)
qed

section \<open>Stop requests\<close>

lemma fire_eq: "fire src s = request_stop s"
  by (cases src) (simp_all add: fire_def esc_listener_eq esc_signalled_def)

lemma fire_all_stopped: "fire_all srcs (request_stop s) = request_stop s"
  by (induction srcs) (simp_all add: fire_eq request_stop_twice)

lemma fire_all_once: "srcs \<noteq> [] \<Longrightarrow> fire_all srcs s = request_stop s"
  by (cases srcs) (simp_all add: fire_eq fire_all_stopped)

text \<open>
  C3. Any non-empty sequence of stop requests, from the button and the ESC key in any
  mix, leaves the state that one \<^verbatim>\<open>request_stop\<close> leaves. \<open>stop_requested\<close> is
  then true, and no later run of the script, whatever its input, makes it false again.
  \<open>stopped_early\<close> becomes true exactly when the count is 0 at the first request; it
  then stays true through all later runs, and otherwise stays false through all later
  runs.
\<close>

theorem request_stop_idempotent_monotonic:
  "(srcs \<noteq> [] \<longrightarrow> fire_all srcs s = request_stop s) \<and>
   stop_requested (request_stop s) \<and>
   (\<not> stopped_early s \<longrightarrow> stopped_early (request_stop s) = (user_message_count s = 0)) \<and>
   (stop_requested s \<longrightarrow> stop_requested (runs inps s)) \<and>
   (stopped_early s \<longrightarrow> stopped_early (runs inps s)) \<and>
   (\<not> stopped_early s \<and> user_message_count s = 0 \<longrightarrow>
      stopped_early (runs inps (request_stop s))) \<and>
   (\<not> stopped_early s \<and> 0 < user_message_count s \<longrightarrow>
      \<not> stopped_early (runs inps (request_stop s)))"
proof -
  have a: "srcs \<noteq> [] \<longrightarrow> fire_all srcs s = request_stop s"
    by (simp add: fire_all_once)
  have b: "stop_requested (request_stop s)" by simp
  have c: "\<not> stopped_early s \<longrightarrow> stopped_early (request_stop s) = (user_message_count s = 0)"
    by simp
  have d: "stop_requested s \<longrightarrow> stop_requested (runs inps s)"
    using advances_runs [of s inps] by (simp add: advances_def)
  have e: "stopped_early s \<longrightarrow> stopped_early (runs inps s)"
    using advances_runs [of s inps] by (simp add: advances_def)
  have f: "\<not> stopped_early s \<and> user_message_count s = 0 \<longrightarrow>
      stopped_early (runs inps (request_stop s))"
    using advances_runs [of "request_stop s" inps] by (simp add: advances_def)
  have g: "\<not> stopped_early s \<and> 0 < user_message_count s \<longrightarrow>
      \<not> stopped_early (runs inps (request_stop s))"
    using advances_runs [of "request_stop s" inps] by (simp add: advances_def)
  from a b c d e f g show ?thesis by blast
qed

theorem request_stop_idempotent_monotonic_witness:
  "fire_all [EscKey, StopButton, EscKey] defaults = request_stop defaults \<and>
   stopped_early (request_stop defaults) \<and>
   stopped_early (runs [click StopBtn, say ''hello'', click GetFeedback] (request_stop defaults)) \<and>
   fire_all [StopButton, EscKey] second_turn_state = request_stop second_turn_state \<and>
   \<not> stopped_early (request_stop second_turn_state) \<and>
   stop_requested (runs [click StopBtn, say ''hello''] (request_stop second_turn_state)) \<and>
   \<not> stopped_early (runs [click StopBtn, say ''hello''] (request_stop second_turn_state)) \<and>
   stopped_early (runs [say ''hello''] (request_stop defaults))"
  using request_stop_idempotent_monotonic
      [of "[EscKey, StopButton, EscKey]" defaults "[click StopBtn, say ''hello'', click GetFeedback]"]
    request_stop_idempotent_monotonic
      [of "[StopButton]" "request_stop defaults" "[say ''hello'']"]
    request_stop_idempotent_monotonic
      [of "[StopButton, EscKey]" second_turn_state "[click StopBtn, say ''hello'']"]
    request_stop_idempotent_monotonic
      [of "[StopButton, EscKey]" "request_stop second_turn_state" "[click StopBtn, say ''hello'']"]
  by (simp add: defaults_def second_turn_state_def)

section \<open>An accepted turn\<close>

lemma init_messages_keeps:
  "user_message_count (init_messages s) = user_message_count s"
  "stop_requested (init_messages s) = stop_requested s"
  "stopped_early (init_messages s) = stopped_early s"
  "setup_complete (init_messages s) = setup_complete s"
  "feedback_shown (init_messages s) = feedback_shown s"
  "chat_complete (init_messages s) = chat_complete s"
  "openai_model (init_messages s) = openai_model s"
  by (simp_all add: init_messages_def)

lemma end_interview_keeps:
  "user_message_count (end_interview s) = user_message_count s"
  "messages (end_interview s) = messages s"
  "stop_requested (end_interview s) = stop_requested s"
  "stopped_early (end_interview s) = stopped_early s"
  "setup_complete (end_interview s) = setup_complete s"
  "feedback_shown (end_interview s) = feedback_shown s"
  "chat_complete (end_interview s) =
     (chat_complete s \<or> 5 \<le> user_message_count s \<or> stop_requested s)"
  by (auto simp add: end_interview_def)

lemma first_screen_not_cut: "\<not> cut_short first_screen"
  by (simp add: first_screen_def show_button_def notify_def no_output_def)

lemma interview_phase_accepted:
  assumes "accepted_turn inp s" and "prompt inp = Some p"
  shows "interview_phase inp s no_output =
     (if cut_short (snd (user_turn p (completion inp) (init_messages s) first_screen))
      then fst (user_turn p (completion inp) (init_messages s) first_screen)
      else end_interview (fst (user_turn p (completion inp) (init_messages s) first_screen)),
      snd (user_turn p (completion inp) (init_messages s) first_screen))"
  using assms
  by (simp add: accepted_turn_def interview_phase_def Let_def esc_listener_eq input_loop_def
      chat_input_def init_messages_keeps first_screen_def)

lemma accepted_turn_enters:
  assumes "accepted_turn inp s"
  shows "apply_callback (clicked inp) s = s" and "setup_stage inp s no_output = (s, no_output)"
  using assms by (simp_all add: accepted_turn_def apply_callback_def setup_stage_def)

lemma run_accepted_state:
  assumes "accepted_turn inp s" and "prompt inp = Some p"
  shows "fst (run inp s) =
     (if cut_short (snd (user_turn p (completion inp) (init_messages s) first_screen))
      then fst (user_turn p (completion inp) (init_messages s) first_screen)
      else end_interview (fst (user_turn p (completion inp) (init_messages s) first_screen)))"
  by (simp add: run_state accepted_turn_enters [OF assms(1)] interview_phase_accepted [OF assms])

lemma notices_notify: "notices (notify n out) = notices out @ [n]"
  by (simp add: notify_def)

lemma notices_show_button: "notices (show_button b out) = notices out"
  by (simp add: show_button_def)

lemma notices_restart_button: "notices (restart_button b inp out) = notices out"
  by (simp add: restart_button_def Let_def notices_show_button)




lemma run_output:
  "snd (run inp s) =
     (if cut_short (snd (interview_phase inp
           (fst (setup_stage inp (apply_callback (clicked inp) s) no_output))
           (snd (setup_stage inp (apply_callback (clicked inp) s) no_output))))
      then snd (interview_phase inp
           (fst (setup_stage inp (apply_callback (clicked inp) s) no_output))
           (snd (setup_stage inp (apply_callback (clicked inp) s) no_output)))
      else feedback_screen inp (fst (run inp s))
       (stopped_early_section inp (fst (run inp s))
          (get_feedback_section (fst (run inp s))
             (snd (interview_phase inp
                (fst (setup_stage inp (apply_callback (clicked inp) s) no_output))
                (snd (setup_stage inp (apply_callback (clicked inp) s) no_output)))))))"
  by (simp add: run_def Let_def)

lemma run_accepted_output:
  assumes "accepted_turn inp s" and "prompt inp = Some p"
  shows "snd (run inp s) =
     (if cut_short (snd (user_turn p (completion inp) (init_messages s) first_screen))
      then snd (user_turn p (completion inp) (init_messages s) first_screen)
      else feedback_screen inp (fst (run inp s))
             (stopped_early_section inp (fst (run inp s))
                (get_feedback_section (fst (run inp s))
                   (snd (user_turn p (completion inp) (init_messages s) first_screen)))))"
  by (simp add: run_output accepted_turn_enters [OF assms(1)] interview_phase_accepted [OF assms])


lemma reply_done_error_notice:
  "stream_error r = Some e \<Longrightarrow> streaming_failed e \<in> set (notices (snd (reply_done r s out)))"
  by (simp add: reply_done_def Let_def notices_notify)

lemma user_turn_done_eq:
  assumes "generates_reply (user_message_count s)" and "\<not> cut_short out"
    and "stream_loop items (s\<lparr>messages := messages s @ [user_message p]\<rparr>) [] 0 = LoopDone r"
  shows "user_turn p (CreateStream items) s out =
     ((fst (reply_done r (s\<lparr>messages := messages s @ [user_message p]\<rparr>)
              (out\<lparr>completion_calls := completion_calls out @
                 [(openai_model s, messages s @ [user_message p])]\<rparr>)))
        \<lparr>user_message_count := user_message_count s + 1\<rparr>,
      snd (reply_done r (s\<lparr>messages := messages s @ [user_message p]\<rparr>)
              (out\<lparr>completion_calls := completion_calls out @
                 [(openai_model s, messages s @ [user_message p])]\<rparr>)))"
proof -
  let ?s1 = "s\<lparr>messages := messages s @ [user_message p]\<rparr>"
  let ?out1 = "out\<lparr>completion_calls := completion_calls out @
                 [(openai_model s, messages s @ [user_message p])]\<rparr>"
  from assms(2) have nc: "\<not> cut_short (snd (reply_done r ?s1 ?out1))"
    by (simp add: reply_done_not_cut)
  have a: "assistant_reply (CreateStream items) ?s1 out = reply_done r ?s1 ?out1"
    using assms(3) by (simp add: assistant_reply_def Let_def streamed_reply_cases)
  have c: "user_message_count (fst (reply_done r ?s1 ?out1)) = user_message_count s"
    by (simp add: reply_done_state)
  have "user_turn p (CreateStream items) s out =
      (let w = assistant_reply (CreateStream items) ?s1 out
       in if cut_short (snd w) then w
          else ((fst w)\<lparr>user_message_count := user_message_count (fst w) + 1\<rparr>, snd w))"
    using assms(1) by (simp add: user_turn_def Let_def user_message_def)
  with nc show ?thesis by (simp add: a c Let_def)
qed

lemma user_turn_done:
  assumes "generates_reply (user_message_count s)" and "\<not> cut_short out"
    and "stream_loop items (s\<lparr>messages := messages s @ [user_message p]\<rparr>) [] 0 = LoopDone r"
  shows "messages (fst (user_turn p (CreateStream items) s out)) =
           messages s @ [user_message p, assistant_message (full_response r)]"
    and "user_message_count (fst (user_turn p (CreateStream items) s out)) =
           user_message_count s + 1"
    and "\<not> cut_short (snd (user_turn p (CreateStream items) s out))"
    and "stream_error r = Some e \<Longrightarrow>
           streaming_failed e \<in> set (notices (snd (user_turn p (CreateStream items) s out)))"
  using assms(2)
  by (simp_all add: user_turn_done_eq [OF assms] reply_done_state reply_done_not_cut
      reply_done_error_notice assistant_message_def)

lemma user_turn_cut:
  assumes "generates_reply (user_message_count s)"
    and "stream_loop items (s\<lparr>messages := messages s @ [user_message p]\<rparr>) [] 0 = ScriptCut"
  shows "fst (user_turn p (CreateStream items) s out) =
           s\<lparr>messages := messages s @ [user_message p]\<rparr>"
    and "cut_short (snd (user_turn p (CreateStream items) s out))"
  using assms
  by (simp_all add: user_turn_def Let_def assistant_reply_def streamed_reply_cases
      user_message_def)

lemma user_turn_raised:
  "generates_reply (user_message_count s) \<Longrightarrow> \<not> cut_short out \<Longrightarrow>
   user_turn p (CreateRaises e) s out =
     (s\<lparr>messages := messages s @ [user_message p],
        user_message_count := user_message_count s + 1\<rparr>,
      notify (response_failed e)
        (out\<lparr>completion_calls := completion_calls out @
           [(openai_model s, messages s @ [user_message p])]\<rparr>))"
  by (simp add: user_turn_def Let_def assistant_reply_def user_message_def notify_def)

lemma user_turn_no_reply:
  "\<not> generates_reply (user_message_count s) \<Longrightarrow>
   user_turn p cr s out =
     (s\<lparr>messages := messages s @ [user_message p],
        user_message_count := user_message_count s + 1\<rparr>, out)"
  by (simp add: user_turn_def Let_def user_message_def)

lemma user_turn_cut_state:
  assumes "cut_short (snd (user_turn p cr s out))" and "\<not> cut_short out"
  shows "fst (user_turn p cr s out) = s\<lparr>messages := messages s @ [user_message p]\<rparr>"
proof (cases "generates_reply (user_message_count s)")
  case False
  with assms show ?thesis by (simp add: user_turn_no_reply)
next
  case True
  show ?thesis
  proof (cases cr)
    case (CreateRaises e)
    with True assms show ?thesis by (simp add: user_turn_raised notify_def)
  next
    case (CreateStream items)
    show ?thesis
    proof (cases "stream_loop items (s\<lparr>messages := messages s @ [user_message p]\<rparr>) [] 0")
      case ScriptCut
      with True CreateStream show ?thesis by (simp add: user_turn_cut)
    next
      case (LoopDone r)
      from user_turn_done(3) [OF True assms(2) LoopDone] assms(1) CreateStream
      show ?thesis by simp
    qed
  qed
qed

lemma user_turn_messages:
  "messages (fst (user_turn p cr s out)) = messages s @ [user_message p] \<or>
   (\<exists>t. messages (fst (user_turn p cr s out)) =
      messages s @ [user_message p, assistant_message t])"
proof -
  let ?s1 = "s\<lparr>messages := messages s @ [user_message p]\<rparr>"
  have r: "messages (fst (assistant_reply cr ?s1 out)) = messages ?s1 \<or>
      (\<exists>t. messages (fst (assistant_reply cr ?s1 out)) = messages ?s1 @ [assistant_message t])"
  proof (cases cr)
    case (CreateRaises e)
    then show ?thesis by (simp add: assistant_reply_def)
  next
    case (CreateStream items)
    then show ?thesis
      by (cases "stream_loop items ?s1 [] 0")
        (simp_all add: assistant_reply_def Let_def streamed_reply_cases reply_done_state
          assistant_message_def)
  qed
  have "messages (fst (user_turn p cr s out)) = messages ?s1 \<or>
        messages (fst (user_turn p cr s out)) = messages (fst (assistant_reply cr ?s1 out))"
    by (simp add: user_turn_def Let_def user_message_def)
  with r show ?thesis by auto
qed

lemma accepted_turn_prompt:
  "accepted_turn inp s \<Longrightarrow> \<exists>p. prompt inp = Some p \<and> p \<noteq> []"
  by (auto simp add: accepted_turn_def split: option.splits)

lemma run_accepted_count:
  assumes "accepted_turn inp s" and "\<not> cut_short (snd (run inp s))"
  shows "user_message_count (fst (run inp s)) = user_message_count s + 1"
proof -
  from accepted_turn_prompt [OF assms(1)] obtain p where p: "prompt inp = Some p" by blast
  let ?u = "user_turn p (completion inp) (init_messages s) first_screen"
  from assms(2) have nc: "\<not> cut_short (snd ?u)"
    by (auto simp add: run_accepted_output [OF assms(1) p])
  then show ?thesis
    by (simp add: run_accepted_state [OF assms(1) p] end_interview_keeps user_turn_count
        init_messages_keeps)
qed

lemma concrete_turns:
  "accepted_turn aborted_input second_turn_state"
  "accepted_turn failing_input second_turn_state"
  "accepted_turn timeout_input second_turn_state"
  "accepted_turn (say ''bye'') fifth_turn_state"
  "init_messages second_turn_state = second_turn_state"
  "init_messages fifth_turn_state = fifth_turn_state"
  by (simp_all add: accepted_turn_def aborted_input_def failing_input_def timeout_input_def
      say_def idle_input_def second_turn_state_def fifth_turn_state_def defaults_def
      accepts_input_def esc_signalled_def init_messages_def)

lemma concrete_inputs:
  "prompt aborted_input = Some ''I am Ann''"
  "prompt failing_input = Some ''I am Ann''"
  "prompt timeout_input = Some ''I am Ann''"
  "prompt (say ''bye'') = Some ''bye''"
  "completion aborted_input =
     CreateStream [(False, Chunk (Some ''Hel'')), (True, Chunk (Some ''lo '')),
                   (False, Chunk (Some ''world''))]"
  "completion failing_input =
     CreateStream [(False, Chunk (Some ''Hel'')), (False, StreamError ''reset'')]"
  "completion timeout_input = CreateRaises ''timeout''"
  "user_message_count second_turn_state = 2"
  "user_message_count fifth_turn_state = 4"
  by (simp_all add: aborted_input_def failing_input_def timeout_input_def say_def
      idle_input_def hello_stream_def second_turn_state_def fifth_turn_state_def)



section \<open>Turns without a stop request\<close>





section \<open>What a run shows and whom it calls\<close>

lemma same_widgets_refl: "same_widgets out out"
  by (simp add: same_widgets_def)

lemma same_widgets_trans: "same_widgets a b \<Longrightarrow> same_widgets b c \<Longrightarrow> same_widgets a c"
  by (simp add: same_widgets_def)

lemma same_widgets_notify: "same_widgets out (notify n out)"
  by (simp add: same_widgets_def notify_def)

lemma same_widgets_streamed_reply: "same_widgets out (snd (streamed_reply items s out))"
  by (cases "stream_loop items s [] 0")
    (simp_all add: streamed_reply_cases reply_done_def Let_def same_widgets_def notify_def
      split: option.splits)

lemma same_widgets_assistant_reply: "same_widgets out (snd (assistant_reply cr s out))"
proof (cases cr)
  case (CreateRaises e)
  then show ?thesis by (simp add: assistant_reply_def Let_def same_widgets_def notify_def)
next
  case (CreateStream items)
  have "same_widgets out (out\<lparr>completion_calls := completion_calls out @ [(openai_model s, messages s)]\<rparr>)"
    by (simp add: same_widgets_def)
  from this same_widgets_streamed_reply have "same_widgets out
     (snd (streamed_reply items s
        (out\<lparr>completion_calls := completion_calls out @ [(openai_model s, messages s)]\<rparr>)))"
    by (rule same_widgets_trans)
  with CreateStream show ?thesis by (simp add: assistant_reply_def Let_def)
qed

lemma same_widgets_user_turn: "same_widgets out (snd (user_turn p cr s out))"
  by (simp add: user_turn_def Let_def same_widgets_assistant_reply same_widgets_refl)

lemma same_widgets_chat_input: "same_widgets out (snd (chat_input inp s out))"
  by (simp add: chat_input_def same_widgets_user_turn same_widgets_refl split: option.splits)

lemma same_widgets_input_loop: "same_widgets out (snd (input_loop inp s out))"
  by (simp add: input_loop_def same_widgets_chat_input same_widgets_refl)

lemma interview_phase_widgets:
  "buttons (snd (interview_phase inp s out)) =
     buttons out @ (if setup_complete s \<and> \<not> feedback_shown s \<and> \<not> chat_complete s
                    then [StopBtn] else [])"
  "scoring_calls (snd (interview_phase inp s out)) = scoring_calls out"
  "downloads (snd (interview_phase inp s out)) = downloads out"
  using same_widgets_input_loop [of "show_button StopBtn (notify (StInfo ''Start by introducing yourself'') out)"
      inp "esc_listener (esc inp) (init_messages s)"]
  by (auto simp add: interview_phase_def Let_def same_widgets_def show_button_def notify_def)

lemma setup_stage_widgets:
  "buttons (snd (setup_stage inp s no_output)) = (if \<not> setup_complete s then [StartInterview] else [])"
  "scoring_calls (snd (setup_stage inp s no_output)) = []"
  "downloads (snd (setup_stage inp s no_output)) = []"
  "setup_complete (fst (setup_stage inp s out)) = setup_complete s"
  "feedback_shown (fst (setup_stage inp s out)) = feedback_shown s"
  "chat_complete (fst (setup_stage inp s out)) = chat_complete s"
  by (simp_all add: setup_stage_def show_button_def no_output_def)

lemma tail_sections_calls:
  "scoring_calls (feedback_screen inp s (stopped_early_section inp s (get_feedback_section s out))) =
     scoring_calls out @
       (if feedback_shown s \<and> \<not> (stopped_early s \<or> user_message_count s = 0)
        then [feedback_request s] else [])"
  by (simp add: feedback_screen_def stopped_early_section_def get_feedback_section_def
      restart_button_def show_button_def notify_def Let_def split: score_result.splits)

lemma tail_sections_downloads:
  "downloads (feedback_screen inp s (stopped_early_section inp s (get_feedback_section s out))) =
     downloads out @
       (if feedback_shown s \<and> \<not> (stopped_early s \<or> user_message_count s = 0)
        then [\<lparr>dl_data = transcript s, dl_file_name = ''interview_transcript.txt'',
               dl_mime = ''text/plain''\<rparr>] else [])"
  by (simp add: feedback_screen_def stopped_early_section_def get_feedback_section_def
      restart_button_def show_button_def notify_def Let_def split: score_result.splits)

lemma tail_sections_buttons:
  "buttons (feedback_screen inp s (stopped_early_section inp s (get_feedback_section s out))) =
     buttons out @
       (if get_feedback_gate s then [GetFeedback] else []) @
       (if chat_complete s \<and> \<not> feedback_shown s \<and> stopped_early s then [RestartEarly] else []) @
       (if feedback_shown s
        then (if stopped_early s \<or> user_message_count s = 0 then [RestartGuard] else [RestartBtn])
        else [])"
  by (simp add: feedback_screen_def stopped_early_section_def get_feedback_section_def
      restart_button_def show_button_def notify_def Let_def split: score_result.splits)

lemma input_loop_cut:
  assumes "cut_short (snd (input_loop inp s out))" and "\<not> cut_short out"
  shows "\<not> stop_requested s"
    and "\<exists>p. fst (input_loop inp s out) = s\<lparr>messages := messages s @ [user_message p]\<rparr>"
proof -
  from assms have gate: "accepts_input (user_message_count s) \<and> \<not> stop_requested s"
    by (cases "accepts_input (user_message_count s) \<and> \<not> stop_requested s")
      (simp_all add: input_loop_def)
  then show "\<not> stop_requested s" by simp
  from assms gate obtain p where p: "prompt inp = Some p" "p \<noteq> []"
    by (cases "prompt inp") (auto simp add: input_loop_def chat_input_def split: if_splits)
  with gate have eq: "input_loop inp s out = user_turn p (completion inp) s out"
    by (simp add: input_loop_def chat_input_def)
  from assms(1) have "cut_short (snd (user_turn p (completion inp) s out))" by (simp add: eq)
  from user_turn_cut_state [OF this assms(2)] eq
  show "\<exists>p. fst (input_loop inp s out) = s\<lparr>messages := messages s @ [user_message p]\<rparr>"
    by auto
qed

lemma interview_phase_output:
  "snd (interview_phase inp s out) =
     (if setup_complete s \<and> \<not> feedback_shown s \<and> \<not> chat_complete s then
        snd (input_loop inp (esc_listener (esc inp) (init_messages s))
          (show_button StopBtn (notify (StInfo ''Start by introducing yourself'') out)))
      else out)"
  by (simp add: interview_phase_def Let_def)

lemma interview_phase_cut:
  assumes "cut_short (snd (interview_phase inp s out))" and "\<not> cut_short out"
  shows "setup_complete s \<and> \<not> feedback_shown s \<and> \<not> chat_complete s"
    and "\<not> feedback_shown (fst (interview_phase inp s out))"
    and "\<not> chat_complete (fst (interview_phase inp s out))"
proof -
  let ?s2 = "esc_listener (esc inp) (init_messages s)"
  let ?out2 = "show_button StopBtn (notify (StInfo ''Start by introducing yourself'') out)"
  from assms show sec: "setup_complete s \<and> \<not> feedback_shown s \<and> \<not> chat_complete s"
    by (cases "setup_complete s \<and> \<not> feedback_shown s \<and> \<not> chat_complete s")
      (simp_all add: interview_phase_output)
  from assms(2) have nc: "\<not> cut_short ?out2" by (simp add: show_button_def notify_def)
  from assms(1) sec have c: "cut_short (snd (input_loop inp ?s2 ?out2))"
    by (simp add: interview_phase_output)
  from input_loop_cut [OF c nc] obtain p where
    ns: "\<not> stop_requested ?s2" and
    st: "fst (input_loop inp ?s2 ?out2) = ?s2\<lparr>messages := messages ?s2 @ [user_message p]\<rparr>"
    by blast
  from ns have s2: "?s2 = init_messages s"
    by (cases "esc_signalled (esc inp)") (simp_all add: esc_listener_eq)
  from sec c have "fst (interview_phase inp s out) = fst (input_loop inp ?s2 ?out2)"
    by (simp add: interview_phase_state)
  with st s2 have "fst (interview_phase inp s out) =
      (init_messages s)\<lparr>messages := messages (init_messages s) @ [user_message p]\<rparr>"
    by simp
  with sec show "\<not> feedback_shown (fst (interview_phase inp s out))"
    and "\<not> chat_complete (fst (interview_phase inp s out))"
    by (simp_all add: init_messages_keeps)
qed

lemma setup_stage_not_cut: "\<not> cut_short (snd (setup_stage inp s no_output))"
  by (simp add: setup_stage_def show_button_def no_output_def)

lemma run_cut:
  assumes "cut_short (snd (interview_phase inp
           (fst (setup_stage inp (apply_callback (clicked inp) s) no_output))
           (snd (setup_stage inp (apply_callback (clicked inp) s) no_output))))"
  shows "setup_complete (apply_callback (clicked inp) s) \<and>
         \<not> feedback_shown (apply_callback (clicked inp) s) \<and>
         \<not> chat_complete (apply_callback (clicked inp) s)"
    and "\<not> feedback_shown (fst (run inp s))"
    and "\<not> chat_complete (fst (run inp s))"
  using interview_phase_cut [OF assms setup_stage_not_cut]
  by (simp_all add: run_state setup_stage_widgets)

lemma run_scoring_calls:
  "scoring_calls (snd (run inp s)) =
     (if feedback_shown (fst (run inp s)) \<and>
         \<not> (stopped_early (fst (run inp s)) \<or> user_message_count (fst (run inp s)) = 0)
      then [feedback_request (fst (run inp s))] else [])"
proof (cases "cut_short (snd (interview_phase inp
           (fst (setup_stage inp (apply_callback (clicked inp) s) no_output))
           (snd (setup_stage inp (apply_callback (clicked inp) s) no_output))))")
  case True
  from run_cut(2) [OF True] True show ?thesis
    by (simp add: run_output interview_phase_widgets setup_stage_widgets)
next
  case False
  then show ?thesis
    by (simp only: run_output if_False tail_sections_calls interview_phase_widgets
        setup_stage_widgets append_Nil)
qed

lemma run_downloads:
  "downloads (snd (run inp s)) =
     (if feedback_shown (fst (run inp s)) \<and>
         \<not> (stopped_early (fst (run inp s)) \<or> user_message_count (fst (run inp s)) = 0)
      then [\<lparr>dl_data = transcript (fst (run inp s)), dl_file_name = ''interview_transcript.txt'',
             dl_mime = ''text/plain''\<rparr>] else [])"
proof (cases "cut_short (snd (interview_phase inp
           (fst (setup_stage inp (apply_callback (clicked inp) s) no_output))
           (snd (setup_stage inp (apply_callback (clicked inp) s) no_output))))")
  case True
  from run_cut(2) [OF True] True show ?thesis
    by (simp add: run_output interview_phase_widgets setup_stage_widgets)
next
  case False
  then show ?thesis
    by (simp only: run_output if_False tail_sections_downloads interview_phase_widgets
        setup_stage_widgets append_Nil)
qed

lemma run_buttons:
  "buttons (snd (run inp s)) =
     (if \<not> setup_complete (apply_callback (clicked inp) s) then [StartInterview] else []) @
     (if setup_complete (apply_callback (clicked inp) s) \<and>
         \<not> feedback_shown (apply_callback (clicked inp) s) \<and>
         \<not> chat_complete (apply_callback (clicked inp) s) then [StopBtn] else []) @
     (if get_feedback_gate (fst (run inp s)) then [GetFeedback] else []) @
     (if chat_complete (fst (run inp s)) \<and> \<not> feedback_shown (fst (run inp s)) \<and>
         stopped_early (fst (run inp s)) then [RestartEarly] else []) @
     (if feedback_shown (fst (run inp s))
      then (if stopped_early (fst (run inp s)) \<or> user_message_count (fst (run inp s)) = 0
            then [RestartGuard] else [RestartBtn])
      else [])"
proof (cases "cut_short (snd (interview_phase inp
           (fst (setup_stage inp (apply_callback (clicked inp) s) no_output))
           (snd (setup_stage inp (apply_callback (clicked inp) s) no_output))))")
  case True
  from run_cut [OF True] True show ?thesis
    by (simp add: run_output interview_phase_widgets setup_stage_widgets get_feedback_gate_def)
next
  case False
  then show ?thesis
    by (simp only: run_output if_False tail_sections_buttons interview_phase_widgets
        setup_stage_widgets append_assoc)
qed

lemma run_shown_not_cut:
  assumes "feedback_shown (fst (run inp s))"
  shows "snd (run inp s) =
     feedback_screen inp (fst (run inp s))
       (stopped_early_section inp (fst (run inp s))
          (get_feedback_section (fst (run inp s))
             (snd (interview_phase inp
                (fst (setup_stage inp (apply_callback (clicked inp) s) no_output))
                (snd (setup_stage inp (apply_callback (clicked inp) s) no_output))))))"
  using assms run_cut(2) [of inp s] by (auto simp add: run_output)

lemma run_closed_section:
  assumes "setup_complete (apply_callback (clicked inp) s)"
    and "feedback_shown (apply_callback (clicked inp) s) \<or> chat_complete (apply_callback (clicked inp) s)"
  shows "fst (run inp s) = apply_callback (clicked inp) s"
  using assms by (auto simp add: run_state setup_stage_def interview_phase_state)

section \<open>Leaving the interview\<close>

lemma phase_interviewing:
  "(phase_of s = Interviewing) = (setup_complete s \<and> \<not> feedback_shown s \<and> \<not> chat_complete s)"
  by (simp add: phase_of_def)

lemma run_stop_clicked:
  assumes "setup_complete s" and "clicked inp = Some StopBtn"
  shows "fst (run inp s) = request_stop s"
  using assms run_closed_section [of inp s] by (simp add: apply_callback_def)



lemma concrete_phases:
  "phase_of interview_start = Interviewing"
  "user_message_count interview_start = 0"
  "\<not> stop_requested interview_start"
  "\<not> stopped_early interview_start"
  "phase_of second_turn_state = Interviewing"
  "\<not> stopped_early second_turn_state"
  "clicked (click b) = Some b"
  by (simp_all add: interview_start_def second_turn_state_def defaults_def phase_of_def
      click_def idle_input_def)



section \<open>Stop clicked while a reply streams\<close>

text \<open>
  In a run the loop is entered with \<open>stop_requested\<close> false (the gate of line 228),
  and nothing sets it while the loop runs, so the \<^verbatim>\<open>break\<close> of line 251 is never
  taken.
\<close>

lemma stream_loop_never_breaks:
  "\<not> stop_requested s \<Longrightarrow> stream_loop items s acc n = LoopDone r \<Longrightarrow> \<not> broke r"
proof (induction items arbitrary: acc n)
  case Nil
  then show ?case by auto
next
  case (Cons x items)
  obtain pending item where x: "x = (pending, item)" by (cases x)
  show ?case
  proof (cases item)
    case (StreamError e)
    with x Cons.prems show ?thesis by (cases pending) auto
  next
    case (Chunk d)
    with x Cons.prems have "stream_loop items s (append_delta acc d) (Suc n) = LoopDone r"
      by (cases pending) auto
    from Cons.IH [OF Cons.prems(1) this] show ?thesis .
  qed
qed

lemma aborted_loop:
  "stream_loop
     [(False, Chunk (Some ''Hel'')), (True, Chunk (Some ''lo '')), (False, Chunk (Some ''world''))]
     (second_turn_state\<lparr>messages := messages second_turn_state @ [user_message ''I am Ann'']\<rparr>)
     [] 0 = ScriptCut"
  by (simp add: second_turn_state_def defaults_def)

lemma failing_loop:
  "stream_loop [(False, Chunk (Some ''Hel'')), (False, StreamError ''reset'')]
     (second_turn_state\<lparr>messages := messages second_turn_state @ [user_message ''I am Ann'']\<rparr>)
     [] 0 =
   LoopDone \<lparr>full_response = ''Hel'', chunks_pulled = 1, broke = False,
             stream_error = Some ''reset''\<rparr>"
  by (simp add: second_turn_state_def defaults_def append_delta_def)

lemma aborted_run:
  "fst (run aborted_input second_turn_state) =
     second_turn_state\<lparr>messages := messages second_turn_state @ [user_message ''I am Ann'']\<rparr>"
  "cut_short (snd (run aborted_input second_turn_state))"
proof -
  have g: "generates_reply (user_message_count second_turn_state)"
    by (simp add: concrete_inputs generates_reply_def)
  note cut = user_turn_cut [OF g aborted_loop, of first_screen]
  from cut show "fst (run aborted_input second_turn_state) =
     second_turn_state\<lparr>messages := messages second_turn_state @ [user_message ''I am Ann'']\<rparr>"
    and "cut_short (snd (run aborted_input second_turn_state))"
    by (simp_all add: run_accepted_state [OF concrete_turns(1) concrete_inputs(1)]
        run_accepted_output [OF concrete_turns(1) concrete_inputs(1)]
        concrete_turns concrete_inputs)
qed

text \<open>
  C1 (what the code does when Stop is clicked while the reply streams). With no click
  the loop returns the whole text, \<open>Hello world\<close>, not aborted. With a click after the
  first fragment the loop does not return \<open>Hel\<close> as aborted: the script is stopped
  inside the loop and the loop has no result. \<open>stop_requested\<close> is still false when
  that run ends; it becomes true in the run the click starts, whose transcript has the
  user's message and no assistant message.
\<close>

theorem stop_click_cuts_stream:
  "\<not> stop_requested second_turn_state \<and>
   stream_loop (hello_stream False) second_turn_state [] 0 =
     LoopDone \<lparr>full_response = ''Hello world'', chunks_pulled = 3, broke = False,
               stream_error = None\<rparr> \<and>
   stream_loop (hello_stream True) second_turn_state [] 0 = ScriptCut \<and>
   \<not> stop_requested (fst (run aborted_input second_turn_state)) \<and>
   stop_requested (fst (run (click StopBtn) (fst (run aborted_input second_turn_state)))) \<and>
   messages (fst (run (click StopBtn) (fst (run aborted_input second_turn_state)))) =
     messages second_turn_state @ [user_message ''I am Ann'']"
proof -
  have a: "\<not> stop_requested second_turn_state"
    by (simp add: second_turn_state_def defaults_def)
  from a have b: "stream_loop (hello_stream False) second_turn_state [] 0 =
     LoopDone \<lparr>full_response = ''Hello world'', chunks_pulled = 3, broke = False,
               stream_error = None\<rparr>"
    by (simp add: hello_stream_def append_delta_def)
  from a have c: "stream_loop (hello_stream True) second_turn_state [] 0 = ScriptCut"
    by (simp add: hello_stream_def)
  let ?t = "fst (run aborted_input second_turn_state)"
  from a have d: "\<not> stop_requested ?t" by (simp add: aborted_run)
  have "setup_complete second_turn_state" by (simp add: second_turn_state_def defaults_def)
  then have "setup_complete ?t" by (simp add: aborted_run)
  from run_stop_clicked [OF this concrete_phases(7)]
  have e: "fst (run (click StopBtn) ?t) = request_stop ?t" .
  from a b c d e show ?thesis by (simp add: aborted_run)
qed

text \<open>
  C4 (what the code does when Stop is clicked while a reply streams). The message has
  been accepted and stored, but the script is stopped inside the loop: the text received
  so far is not appended as an assistant message, the run is cut short, and the count is
  not raised. A stream that fails after the same first fragment behaves as the claim
  says: the partial text is appended and the count goes up by one.
\<close>

theorem stop_click_during_reply_loses_turn:
  "accepted_turn aborted_input second_turn_state \<and>
   cut_short (snd (run aborted_input second_turn_state)) \<and>
   messages (fst (run aborted_input second_turn_state)) =
     messages second_turn_state @ [user_message ''I am Ann''] \<and>
   user_message_count (fst (run aborted_input second_turn_state)) =
     user_message_count second_turn_state \<and>
   accepted_turn failing_input second_turn_state \<and>
   \<not> cut_short (snd (run failing_input second_turn_state)) \<and>
   messages (fst (run failing_input second_turn_state)) =
     messages second_turn_state @ [user_message ''I am Ann'', assistant_message ''Hel''] \<and>
   user_message_count (fst (run failing_input second_turn_state)) =
     user_message_count second_turn_state + 1"
proof -
  have g: "generates_reply (user_message_count second_turn_state)"
    by (simp add: concrete_inputs generates_reply_def)
  note fin = user_turn_done [OF g first_screen_not_cut failing_loop]
  have c: "fst (run failing_input second_turn_state) =
      end_interview (fst (user_turn ''I am Ann''
        (CreateStream [(False, Chunk (Some ''Hel'')), (False, StreamError ''reset'')])
        second_turn_state first_screen))"
    using fin(3)
    by (simp add: run_accepted_state [OF concrete_turns(2) concrete_inputs(2)]
        concrete_turns concrete_inputs)
  have "\<not> feedback_shown second_turn_state" by (simp add: second_turn_state_def defaults_def)
  then have "\<not> feedback_shown (fst (run failing_input second_turn_state))"
    by (simp add: c end_interview_keeps user_turn_done_eq [OF g first_screen_not_cut failing_loop]
        reply_done_state)
  then have d: "\<not> cut_short (snd (run failing_input second_turn_state))"
    using fin(3)
    by (simp add: run_accepted_output [OF concrete_turns(2) concrete_inputs(2)]
        concrete_turns concrete_inputs feedback_screen_def stopped_early_section_def
        get_feedback_section_def restart_button_def show_button_def notify_def Let_def)
  from c d fin(1,2) concrete_turns(1,2) show ?thesis
    by (simp add: end_interview_keeps aborted_run)
qed

section \<open>A stop before the first message\<close>

lemma early_stop_state:
  "stopped_early (request_stop interview_start)"
  "setup_complete (request_stop interview_start)"
  "chat_complete (request_stop interview_start)"
  "setup_complete interview_start"
  "\<not> feedback_shown interview_start"
  "clicked idle_input = None"
  by (simp_all add: interview_start_def defaults_def idle_input_def)

text \<open>
  C6. A stop requested at count 0 puts the session in the StoppedEarly phase. From then
  on, whatever the later runs receive (a feedback request included), \<open>stopped_early\<close>
  stays true, no run calls the scoring service, the Get Feedback button is never
  offered, and the only button a run offers is a restart button.
\<close>

theorem early_stop_refuses_feedback:
  "(phase_of s = Interviewing \<and> user_message_count s = 0 \<longrightarrow>
      phase_of (request_stop s) = StoppedEarly \<and> \<not> get_feedback_gate (request_stop s)) \<and>
   (stopped_early s \<longrightarrow>
      stopped_early (fst (run inp (runs inps s))) \<and>
      scoring_calls (snd (run inp (runs inps s))) = [] \<and>
      GetFeedback \<notin> set (buttons (snd (run inp (runs inps s))))) \<and>
   (stopped_early s \<and> setup_complete s \<and> chat_complete s \<longrightarrow>
      buttons (snd (run inp (runs inps s))) =
        (if feedback_shown (fst (run inp (runs inps s))) then [RestartGuard] else [RestartEarly]))"
proof -
  let ?t = "runs inps s"
  let ?c = "apply_callback (clicked inp) ?t"
  let ?u = "fst (run inp ?t)"
  have st: "advances s ?t" by (rule advances_runs)
  have tc: "advances ?t ?c" by (rule advances_apply_callback)
  have tu: "advances ?t ?u" by (rule advances_run)
  from st tu have su: "advances s ?u" by (rule advances_trans)
  from st tc have sc: "advances s ?c" by (rule advances_trans)
  have a: "phase_of s = Interviewing \<and> user_message_count s = 0 \<longrightarrow>
      phase_of (request_stop s) = StoppedEarly \<and> \<not> get_feedback_gate (request_stop s)"
    by (simp add: phase_interviewing phase_of_def get_feedback_gate_def)
  have b: "stopped_early s \<longrightarrow>
      stopped_early ?u \<and> scoring_calls (snd (run inp ?t)) = [] \<and>
      GetFeedback \<notin> set (buttons (snd (run inp ?t)))"
  proof
    assume "stopped_early s"
    with su have e: "stopped_early ?u" by (simp add: advances_def)
    then have g: "\<not> get_feedback_gate ?u" by (simp add: get_feedback_gate_def)
    from e have "scoring_calls (snd (run inp ?t)) = []" by (simp add: run_scoring_calls)
    moreover from g have "GetFeedback \<notin> set (buttons (snd (run inp ?t)))"
      by (simp add: run_buttons)
    ultimately show "stopped_early ?u \<and> scoring_calls (snd (run inp ?t)) = [] \<and>
      GetFeedback \<notin> set (buttons (snd (run inp ?t)))" using e by simp
  qed
  have c: "stopped_early s \<and> setup_complete s \<and> chat_complete s \<longrightarrow>
      buttons (snd (run inp ?t)) = (if feedback_shown ?u then [RestartGuard] else [RestartEarly])"
  proof
    assume h: "stopped_early s \<and> setup_complete s \<and> chat_complete s"
    with sc have cc: "setup_complete ?c" "chat_complete ?c" by (simp_all add: advances_def)
    from h su have uu: "stopped_early ?u" "chat_complete ?u" by (simp_all add: advances_def)
    then have g: "\<not> get_feedback_gate ?u" by (simp add: get_feedback_gate_def)
    from cc uu g show "buttons (snd (run inp ?t)) =
        (if feedback_shown ?u then [RestartGuard] else [RestartEarly])"
      by (simp add: run_buttons)
  qed
  from a b c show ?thesis by blast
qed

theorem early_stop_refuses_feedback_witness:
  "phase_of interview_start = Interviewing \<and>
   phase_of (request_stop interview_start) = StoppedEarly \<and>
   scoring_calls (snd (run (click GetFeedback)
     (runs [click GetFeedback, say ''hello''] (request_stop interview_start)))) = [] \<and>
   GetFeedback \<notin> set (buttons (snd (run (click GetFeedback)
     (runs [click GetFeedback, say ''hello''] (request_stop interview_start))))) \<and>
   buttons (snd (run idle_input (runs [] (request_stop interview_start)))) = [RestartEarly]"
  using early_stop_refuses_feedback [of interview_start "click GetFeedback" "[]"]
    early_stop_refuses_feedback [of "request_stop interview_start" "click GetFeedback"
      "[click GetFeedback, say ''hello'']"]
    early_stop_refuses_feedback [of "request_stop interview_start" idle_input "[]"]
    run_closed_section [of idle_input "request_stop interview_start"]
  by (simp add: concrete_phases early_stop_state apply_callback_def)

section \<open>A failing scoring call\<close>

lemma run_feedback_clicked:
  assumes "setup_complete s" and "clicked inp = Some GetFeedback"
  shows "fst (run inp s) = show_feedback s"
  using assms run_closed_section [of inp s] by (simp add: apply_callback_def show_feedback_def)

lemma run_feedback_rerun:
  assumes "setup_complete s" and "feedback_shown s" and "clicked inp = None"
  shows "fst (run inp s) = s"
  using assms run_closed_section [of inp s] by (simp add: apply_callback_def)

lemma feedback_screen_notice:
  assumes "feedback_shown s" and "\<not> stopped_early s" and "user_message_count s \<noteq> 0"
  shows "scoring inp = ScoreRaises e \<Longrightarrow> feedback_failed e \<in> set (notices (feedback_screen inp s out))"
    and "scoring inp = ScoreText t \<Longrightarrow> StWrite t \<in> set (notices (feedback_screen inp s out))"
  using assms
  by (simp_all add: feedback_screen_def Let_def notices_restart_button notices_notify)

lemma run_feedback_notice:
  assumes "feedback_shown (fst (run inp s))" and "\<not> stopped_early (fst (run inp s))"
    and "user_message_count (fst (run inp s)) \<noteq> 0"
  shows "scoring inp = ScoreRaises e \<Longrightarrow> feedback_failed e \<in> set (notices (snd (run inp s)))"
    and "scoring inp = ScoreText t \<Longrightarrow> StWrite t \<in> set (notices (snd (run inp s)))"
  using feedback_screen_notice [OF assms] by (simp_all add: run_shown_not_cut [OF assms(1)])

lemma completed_state_facts:
  "setup_complete completed_state"
  "get_feedback_gate completed_state"
  "phase_of completed_state = Completed"
  "\<not> feedback_shown completed_state"
  "\<not> stopped_early completed_state"
  "user_message_count completed_state = 2"
  "clicked failing_feedback_click = Some GetFeedback"
  "scoring failing_feedback_click = ScoreRaises ''boom''"
  "clicked (idle_input\<lparr>scoring := ScoreRaises ''boom''\<rparr>) = None"
  "scoring (idle_input\<lparr>scoring := ScoreRaises ''boom''\<rparr>) = ScoreRaises ''boom''"
  "chat_complete completed_state"
  "phase_of (completed_state\<lparr>feedback_shown := True\<rparr>) = FeedbackShown"
  by (simp_all add: completed_state_def second_turn_state_def defaults_def
      get_feedback_gate_def phase_of_def failing_feedback_click_def click_def idle_input_def)

text \<open>
  C7 (as the code has it). The callback of the Get Feedback button sets
  \<open>feedback_shown\<close> before the script calls the scoring service. When that call then
  fails, the error is shown as a notice and the call itself changes nothing in the
  session state, but the session is already in the FeedbackShown phase and stays there:
  the Get Feedback button is not offered again, only Restart is. Each later run of the
  feedback screen leaves the state as it is and calls the scoring service once more.
\<close>

theorem failed_scoring_reported_after_phase_moved:
  "(setup_complete s \<and> get_feedback_gate s \<and> clicked inp = Some GetFeedback \<and>
    scoring inp = ScoreRaises e \<longrightarrow>
      fst (run inp s) = show_feedback s \<and>
      phase_of (fst (run inp s)) = FeedbackShown \<and>
      feedback_failed e \<in> set (notices (snd (run inp s))) \<and>
      scoring_calls (snd (run inp s)) = [feedback_request (show_feedback s)] \<and>
      buttons (snd (run inp s)) = [RestartBtn]) \<and>
   (setup_complete s \<and> feedback_shown s \<and> \<not> stopped_early s \<and> user_message_count s \<noteq> 0 \<and>
    clicked inp = None \<longrightarrow>
      fst (run inp s) = s \<and>
      scoring_calls (snd (run inp s)) = [feedback_request s] \<and>
      buttons (snd (run inp s)) = [RestartBtn] \<and>
      (scoring inp = ScoreRaises e \<longrightarrow> feedback_failed e \<in> set (notices (snd (run inp s)))))"
proof -
  have a: "setup_complete s \<and> get_feedback_gate s \<and> clicked inp = Some GetFeedback \<and>
    scoring inp = ScoreRaises e \<longrightarrow>
      fst (run inp s) = show_feedback s \<and>
      phase_of (fst (run inp s)) = FeedbackShown \<and>
      feedback_failed e \<in> set (notices (snd (run inp s))) \<and>
      scoring_calls (snd (run inp s)) = [feedback_request (show_feedback s)] \<and>
      buttons (snd (run inp s)) = [RestartBtn]"
  proof (intro impI, elim conjE)
    assume h: "setup_complete s" "get_feedback_gate s" "clicked inp = Some GetFeedback"
      "scoring inp = ScoreRaises e"
    note st = run_feedback_clicked [OF h(1,3)]
    from h(1,2) have f: "feedback_shown (fst (run inp s))" "\<not> stopped_early (fst (run inp s))"
      "user_message_count (fst (run inp s)) \<noteq> 0" "setup_complete (fst (run inp s))"
      "chat_complete (fst (run inp s))"
      by (simp_all add: st show_feedback_def get_feedback_gate_def)
    from f have ph: "phase_of (fst (run inp s)) = FeedbackShown" by (simp add: phase_of_def)
    have n: "feedback_failed e \<in> set (notices (snd (run inp s)))"
      by (rule run_feedback_notice(1) [OF f(1-3) h(4)])
    from f have sc: "scoring_calls (snd (run inp s)) = [feedback_request (fst (run inp s))]"
      by (simp add: run_scoring_calls)
    from h(1,2,3) f have b: "buttons (snd (run inp s)) = [RestartBtn]"
      by (simp add: run_buttons apply_callback_def show_feedback_def get_feedback_gate_def)
    from st ph n sc b show "fst (run inp s) = show_feedback s \<and>
      phase_of (fst (run inp s)) = FeedbackShown \<and>
      feedback_failed e \<in> set (notices (snd (run inp s))) \<and>
      scoring_calls (snd (run inp s)) = [feedback_request (show_feedback s)] \<and>
      buttons (snd (run inp s)) = [RestartBtn]" by simp
  qed
  have b: "setup_complete s \<and> feedback_shown s \<and> \<not> stopped_early s \<and> user_message_count s \<noteq> 0 \<and>
    clicked inp = None \<longrightarrow>
      fst (run inp s) = s \<and>
      scoring_calls (snd (run inp s)) = [feedback_request s] \<and>
      buttons (snd (run inp s)) = [RestartBtn] \<and>
      (scoring inp = ScoreRaises e \<longrightarrow> feedback_failed e \<in> set (notices (snd (run inp s))))"
  proof (intro impI, elim conjE)
    assume h: "setup_complete s" "feedback_shown s" "\<not> stopped_early s"
      "user_message_count s \<noteq> 0" "clicked inp = None"
    note st = run_feedback_rerun [OF h(1,2,5)]
    from h have f: "feedback_shown (fst (run inp s))" "\<not> stopped_early (fst (run inp s))"
      "user_message_count (fst (run inp s)) \<noteq> 0"
      by (simp_all add: st)
    from h have sc: "scoring_calls (snd (run inp s)) = [feedback_request s]"
      by (simp add: run_scoring_calls st)
    from h have bt: "buttons (snd (run inp s)) = [RestartBtn]"
      by (simp add: run_buttons st apply_callback_def get_feedback_gate_def)
    have n: "scoring inp = ScoreRaises e \<longrightarrow> feedback_failed e \<in> set (notices (snd (run inp s)))"
      using run_feedback_notice(1) [OF f] by blast
    from st sc bt n show "fst (run inp s) = s \<and>
      scoring_calls (snd (run inp s)) = [feedback_request s] \<and>
      buttons (snd (run inp s)) = [RestartBtn] \<and>
      (scoring inp = ScoreRaises e \<longrightarrow> feedback_failed e \<in> set (notices (snd (run inp s))))"
      by simp
  qed
  from a b show ?thesis by blast
qed

theorem failed_scoring_reported_after_phase_moved_witness:
  "phase_of completed_state = Completed \<and>
   fst (run failing_feedback_click completed_state) = show_feedback completed_state \<and>
   phase_of (fst (run failing_feedback_click completed_state)) = FeedbackShown \<and>
   feedback_failed ''boom'' \<in> set (notices (snd (run failing_feedback_click completed_state))) \<and>
   buttons (snd (run failing_feedback_click completed_state)) = [RestartBtn] \<and>
   fst (run (idle_input\<lparr>scoring := ScoreRaises ''boom''\<rparr>) (show_feedback completed_state))
     = show_feedback completed_state \<and>
   scoring_calls (snd (run (idle_input\<lparr>scoring := ScoreRaises ''boom''\<rparr>)
     (show_feedback completed_state))) = [feedback_request (show_feedback completed_state)]"
  using failed_scoring_reported_after_phase_moved
      [of completed_state failing_feedback_click "''boom''"]
    failed_scoring_reported_after_phase_moved
      [of "show_feedback completed_state" "idle_input\<lparr>scoring := ScoreRaises ''boom''\<rparr>" "''boom''"]
  by (simp add: completed_state_facts show_feedback_def)

text \<open>
  The phase does move: a Completed session in which Get Feedback is clicked and the
  scoring call fails ends in FeedbackShown, with a changed state and without the button.
\<close>

theorem failed_scoring_phase_counterexample:
  "phase_of completed_state = Completed \<and>
   phase_of (fst (run failing_feedback_click completed_state)) = FeedbackShown \<and>
   fst (run failing_feedback_click completed_state) \<noteq> completed_state \<and>
   GetFeedback \<notin> set (buttons (snd (run failing_feedback_click completed_state)))"
proof -
  have st: "fst (run failing_feedback_click completed_state) = show_feedback completed_state"
    by (rule run_feedback_clicked) (simp_all add: completed_state_facts)
  have a: "phase_of (show_feedback completed_state) = FeedbackShown"
    by (simp add: phase_of_def show_feedback_def completed_state_facts)
  have b: "show_feedback completed_state \<noteq> completed_state"
  proof
    assume "show_feedback completed_state = completed_state"
    then have "feedback_shown (show_feedback completed_state) = feedback_shown completed_state"
      by simp
    then show False by (simp add: show_feedback_def completed_state_facts)
  qed
  have c: "GetFeedback \<notin> set (buttons (snd (run failing_feedback_click completed_state)))"
    by (simp add: run_buttons st apply_callback_def completed_state_facts show_feedback_def
        get_feedback_gate_def)
  from st a b c show ?thesis by (simp add: completed_state_facts)
qed

section \<open>The transcript as text\<close>

lemma system_first_append:
  "system_first ms \<Longrightarrow> ms \<noteq> [] \<Longrightarrow> role m = ''user'' \<or> role m = ''assistant'' \<Longrightarrow>
   system_first (ms @ [m])"
  by (cases ms) (simp_all add: system_first_def)

lemma system_first_init: "system_first (messages s) \<Longrightarrow> system_first (messages (init_messages s))"
  by (simp add: init_messages_def system_first_def system_message_def)

lemma init_messages_nonempty: "messages (init_messages s) \<noteq> []"
  by (simp add: init_messages_def)

lemma system_first_user_turn:
  assumes "system_first (messages s)" and "messages s \<noteq> []"
  shows "system_first (messages (fst (user_turn p cr s out))) \<and>
         messages (fst (user_turn p cr s out)) \<noteq> []"
proof -
  have u: "system_first (messages s @ [user_message p])"
    by (rule system_first_append [OF assms]) (simp add: user_message_def)
  have "system_first ((messages s @ [user_message p]) @ [assistant_message t])" for t
    by (rule system_first_append [OF u]) (simp_all add: assistant_message_def)
  with u user_turn_messages [of p cr s out] show ?thesis by auto
qed

lemma system_first_interview_phase:
  assumes "system_first (messages s)"
  shows "system_first (messages (fst (interview_phase inp s out)))"
proof (cases "setup_complete s \<and> \<not> feedback_shown s \<and> \<not> chat_complete s")
  case False
  with assms show ?thesis by (auto simp add: interview_phase_state)
next
  case True
  let ?s2 = "esc_listener (esc inp) (init_messages s)"
  let ?out2 = "show_button StopBtn (notify (StInfo ''Start by introducing yourself'') out)"
  have a: "system_first (messages ?s2)" "messages ?s2 \<noteq> []"
    using system_first_init [OF assms] init_messages_nonempty [of s]
    by (simp_all add: esc_listener_keeps)
  have "system_first (messages (fst (input_loop inp ?s2 ?out2)))"
    using a system_first_user_turn [OF a]
    by (simp add: input_loop_def chat_input_def split: option.splits)
  with True show ?thesis by (simp add: interview_phase_state end_interview_keeps)
qed

lemma apply_callback_messages: "messages (apply_callback b s) = messages s"
  by (simp add: apply_callback_def complete_setup_def show_feedback_def
      split: option.splits button.splits)

lemma setup_stage_messages: "messages (fst (setup_stage inp s out)) = messages s"
  by (simp add: setup_stage_def)

lemma system_first_run:
  "system_first (messages s) \<Longrightarrow> system_first (messages (fst (run inp s)))"
  unfolding run_state
  by (rule system_first_interview_phase) (simp add: setup_stage_messages apply_callback_messages)

lemma reachable_system_first: "reachable s \<Longrightarrow> system_first (messages s)"
proof (induction rule: reachable.induct)
  case reachable_defaults
  show ?case by (simp add: defaults_def system_first_def)
next
  case (reachable_run s inp)
  from reachable_run.IH show ?case by (rule system_first_run)
qed

lemma join_nl_Cons: "join_nl (x # xs) = x @ (if xs = [] then [] else CHR 0x0A # join_nl xs)"
  by (cases xs) simp_all

lemma join_nl_snoc: "xs \<noteq> [] \<Longrightarrow> join_nl (xs @ [y]) = join_nl xs @ CHR 0x0A # y"
  by (induction xs rule: join_nl.induct) simp_all

lemma render_line_fun: "render_line = (\<lambda>m. role m @ '': '' @ content m)"
  by (rule ext) (simp add: render_line_def)

lemma same_rendering: "conversation_history s = transcript s"
  by (simp only: conversation_history_def transcript_def render_line_fun)

lemma reachable_runs: "reachable s \<Longrightarrow> reachable (runs inps s)"
  by (induction inps arbitrary: s) (simp_all add: reachable_run)

lemma transcript_render: "transcript s = join_nl (map render_line (messages s))"
  by (simp only: transcript_def render_line_fun)

lemma transcript_Cons:
  "messages s = m # rest \<Longrightarrow>
   transcript s = role m @ '': '' @ content m @
     (if rest = [] then [] else CHR 0x0A # join_nl (map render_line rest))"
  by (simp add: transcript_render join_nl_Cons render_line_def)

lemma started_state_messages:
  "messages started_state =
     [\<lparr>role = ''system'',
       content = ''You are an HR executive that interviews an interviewee called Ann with experience two years and skills SQL. You should interview him for the position Junior Data Scientist at the company Amazon''\<rparr>]"
  by (simp add: started_state_def run_state apply_callback_def complete_setup_def
      setup_stage_def interview_phase_state init_messages_def system_message_def
      esc_listener_eq esc_signalled_def input_loop_def chat_input_def end_interview_def
      accepts_input_def click_def idle_input_def defaults_def)

lemma started_state_reachable: "reachable started_state"
  unfolding started_state_def by (rule reachable_runs [OF reachable_defaults])

lemma feedback_run_state:
  "fst (run failing_feedback_click completed_state) = show_feedback completed_state"
  by (rule run_feedback_clicked) (simp_all add: completed_state_facts)

lemma feedback_run_facts:
  "feedback_shown (show_feedback completed_state)"
  "\<not> stopped_early (show_feedback completed_state)"
  "user_message_count (show_feedback completed_state) = 2"
  "transcript (show_feedback completed_state) =
     ''system: brief'' @ CHR 0x0A # ''user: hello'' @ CHR 0x0A # ''assistant: Hi'' @
     CHR 0x0A # ''user: I am Ann'' @ CHR 0x0A # ''assistant: Welcome''"
  by (simp_all add: show_feedback_def transcript_def completed_state_def
      second_turn_state_def defaults_def)

text \<open>
  C8. The feedback prompt and the export use the same rendering of the transcript: the
  lines \<open>role: content\<close> in transcript order, joined by newlines, so that a message
  appended to the transcript adds one line at the end. In every state the script can
  reach, a non-empty transcript has exactly one system message, the first, and the
  rendering begins with its line. A run that shows the feedback makes exactly one
  scoring call, whose user prompt ends with this rendering, and offers the rendering
  for download under the file name \<open>interview_transcript.txt\<close>.
\<close>

theorem transcript_rendering:
  "conversation_history s = transcript s \<and>
   transcript s = join_nl (map render_line (messages s)) \<and>
   transcript (s\<lparr>messages := messages s @ [m]\<rparr>) =
     (if messages s = [] then render_line m else transcript s @ CHR 0x0A # render_line m) \<and>
   (reachable s \<and> messages s \<noteq> [] \<longrightarrow>
      role (hd (messages s)) = ''system'' \<and>
      list_all (\<lambda>x. role x \<noteq> ''system'') (tl (messages s)) \<and>
      transcript s = ''system: '' @ content (hd (messages s)) @
        (if tl (messages s) = [] then []
         else CHR 0x0A # join_nl (map render_line (tl (messages s))))) \<and>
   (feedback_shown (fst (run inp s)) \<and> \<not> stopped_early (fst (run inp s)) \<and>
    user_message_count (fst (run inp s)) \<noteq> 0 \<longrightarrow>
      scoring_calls (snd (run inp s)) =
        [(''gpt-4o'',
          [\<lparr>role = ''system'', content = feedback_system_prompt\<rparr>,
           \<lparr>role = ''user'', content = feedback_user_prefix @ transcript (fst (run inp s))\<rparr>])] \<and>
      downloads (snd (run inp s)) =
        [\<lparr>dl_data = transcript (fst (run inp s)), dl_file_name = ''interview_transcript.txt'',
          dl_mime = ''text/plain''\<rparr>])"
proof -
  have a: "conversation_history s = transcript s" by (rule same_rendering)
  have b: "transcript s = join_nl (map render_line (messages s))"
    by (rule transcript_render)
  have c: "transcript (s\<lparr>messages := messages s @ [m]\<rparr>) =
     (if messages s = [] then render_line m else transcript s @ CHR 0x0A # render_line m)"
    by (simp add: transcript_render join_nl_snoc)
  have d: "reachable s \<and> messages s \<noteq> [] \<longrightarrow>
      role (hd (messages s)) = ''system'' \<and>
      list_all (\<lambda>x. role x \<noteq> ''system'') (tl (messages s)) \<and>
      transcript s = ''system: '' @ content (hd (messages s)) @
        (if tl (messages s) = [] then []
         else CHR 0x0A # join_nl (map render_line (tl (messages s))))"
  proof (intro impI, elim conjE)
    assume r: "reachable s" and ne: "messages s \<noteq> []"
    from ne obtain x rest where ms: "messages s = x # rest" by (cases "messages s") auto
    from reachable_system_first [OF r] ms
    have sf: "role x = ''system''" "list_all (\<lambda>x. role x = ''user'' \<or> role x = ''assistant'') rest"
      by (simp_all add: system_first_def)
    from sf(2) have ns: "list_all (\<lambda>x. role x \<noteq> ''system'') rest"
      by (induction rest) auto
    from transcript_Cons [OF ms] sf(1) ns ms
    show "role (hd (messages s)) = ''system'' \<and>
      list_all (\<lambda>x. role x \<noteq> ''system'') (tl (messages s)) \<and>
      transcript s = ''system: '' @ content (hd (messages s)) @
        (if tl (messages s) = [] then []
         else CHR 0x0A # join_nl (map render_line (tl (messages s))))"
      by simp
  qed
  have e: "feedback_shown (fst (run inp s)) \<and> \<not> stopped_early (fst (run inp s)) \<and>
    user_message_count (fst (run inp s)) \<noteq> 0 \<longrightarrow>
      scoring_calls (snd (run inp s)) =
        [(''gpt-4o'',
          [\<lparr>role = ''system'', content = feedback_system_prompt\<rparr>,
           \<lparr>role = ''user'', content = feedback_user_prefix @ transcript (fst (run inp s))\<rparr>])] \<and>
      downloads (snd (run inp s)) =
        [\<lparr>dl_data = transcript (fst (run inp s)), dl_file_name = ''interview_transcript.txt'',
          dl_mime = ''text/plain''\<rparr>]"
    by (simp add: run_scoring_calls run_downloads feedback_request_def same_rendering)
  from a b c d e show ?thesis by blast
qed

theorem transcript_rendering_witness:
  "reachable started_state \<and> messages started_state \<noteq> [] \<and>
   role (hd (messages started_state)) = ''system'' \<and>
   transcript started_state = ''system: '' @ content (hd (messages started_state)) \<and>
   scoring_calls (snd (run failing_feedback_click completed_state)) =
     [(''gpt-4o'',
       [\<lparr>role = ''system'', content = feedback_system_prompt\<rparr>,
        \<lparr>role = ''user'', content = feedback_user_prefix @
           ''system: brief'' @ CHR 0x0A # ''user: hello'' @ CHR 0x0A # ''assistant: Hi'' @
           CHR 0x0A # ''user: I am Ann'' @ CHR 0x0A # ''assistant: Welcome''\<rparr>])] \<and>
   map dl_file_name (downloads (snd (run failing_feedback_click completed_state))) =
     [''interview_transcript.txt'']"
proof -
  note t1 = transcript_rendering [of started_state "user_message ''hello''" failing_feedback_click]
  note t2 = transcript_rendering [of completed_state "user_message ''hello''" failing_feedback_click]
  have ne: "messages started_state \<noteq> []" by (simp add: started_state_messages)
  from t1 started_state_reachable ne
  have s: "role (hd (messages started_state)) = ''system'' \<and>
      transcript started_state = ''system: '' @ content (hd (messages started_state)) @
        (if tl (messages started_state) = [] then []
         else CHR 0x0A # join_nl (map render_line (tl (messages started_state))))"
    by blast
  have tl: "tl (messages started_state) = []" by (simp add: started_state_messages)
  have f: "feedback_shown (fst (run failing_feedback_click completed_state)) \<and>
      \<not> stopped_early (fst (run failing_feedback_click completed_state)) \<and>
      user_message_count (fst (run failing_feedback_click completed_state)) \<noteq> 0"
    by (simp add: feedback_run_state feedback_run_facts)
  from t2 f
  have c: "scoring_calls (snd (run failing_feedback_click completed_state)) =
        [(''gpt-4o'',
          [\<lparr>role = ''system'', content = feedback_system_prompt\<rparr>,
           \<lparr>role = ''user'', content = feedback_user_prefix @
              transcript (fst (run failing_feedback_click completed_state))\<rparr>])] \<and>
      downloads (snd (run failing_feedback_click completed_state)) =
        [\<lparr>dl_data = transcript (fst (run failing_feedback_click completed_state)),
          dl_file_name = ''interview_transcript.txt'', dl_mime = ''text/plain''\<rparr>]"
    by blast
  from s tl have s': "role (hd (messages started_state)) = ''system'' \<and>
      transcript started_state = ''system: '' @ content (hd (messages started_state))"
    by simp
  from c have c': "scoring_calls (snd (run failing_feedback_click completed_state)) =
     [(''gpt-4o'',
       [\<lparr>role = ''system'', content = feedback_system_prompt\<rparr>,
        \<lparr>role = ''user'', content = feedback_user_prefix @
           ''system: brief'' @ CHR 0x0A # ''user: hello'' @ CHR 0x0A # ''assistant: Hi'' @
           CHR 0x0A # ''user: I am Ann'' @ CHR 0x0A # ''assistant: Welcome''\<rparr>])] \<and>
   map dl_file_name (downloads (snd (run failing_feedback_click completed_state))) =
     [''interview_transcript.txt'']"
    by (simp add: feedback_run_state feedback_run_facts)
  from started_state_reachable ne s' c' show ?thesis by blast
qed

end
